theory Spec2Isabelle
  imports Main
begin

section \<open>Identity hash (server/routes: hashStringToNumber)\<close>

text \<open>
  A JavaScript string is a sequence of UTF-16 code units; \<open>str.charCodeAt(i)\<close> reads the
  \<open>i\<close>-th unit. The model keeps the units as natural numbers. \<open>utf16\<close> embeds an ASCII
  literal.
\<close>

type_synonym js_string = "nat list"

definition utf16 :: "string \<Rightarrow> js_string" where
  "utf16 s = map of_char s"

text \<open>
  \<open>ToInt32\<close> of the language standard: the operand of every bitwise operator is reduced
  modulo \<open>2^32\<close> into the signed range. The numbers met below are integers far below
  \<open>2^53\<close>, so the double arithmetic between two bitwise operators is exact.
\<close>

definition toInt32 :: "int \<Rightarrow> int" where
  "toInt32 x = (x + 2 ^ 31) mod 2 ^ 32 - 2 ^ 31"

text \<open>\<open>hash << 5\<close>: the left operand goes through \<open>ToInt32\<close>, and so does the result.\<close>

definition shl5 :: "int \<Rightarrow> int" where
  "shl5 h = toInt32 (toInt32 h * 32)"

text \<open>
  The loop body is \<open>hash = ((hash << 5) - hash) + char; hash = hash & hash\<close>; the second
  statement is \<open>ToInt32\<close> of the first statement's value.
\<close>

fun hash_loop :: "int \<Rightarrow> js_string \<Rightarrow> int" where
  "hash_loop hash [] = hash"
| "hash_loop hash (c # cs) = hash_loop (toInt32 (shl5 hash - hash + int c)) cs"

definition hashStringToNumber :: "js_string \<Rightarrow> int" where
  "hashStringToNumber str = \<bar>hash_loop 0 str\<bar>"


section \<open>Rebuild orchestrator (server/rebuild: triggerRebuild, getRebuildStatus)\<close>

subsection \<open>The file system and the environment\<close>

text \<open>
  The three directories the orchestrator names: \<open>dist/public\<close> (live),
  \<open>dist/public.new\<close> and \<open>dist/public.old\<close>. A file system gives each of them the tree
  stored there, or \<open>None\<close> when the path does not exist.
\<close>

datatype path = PublicDir | TempPublicDir | OldPublicDir

type_synonym 'c fs = "path \<Rightarrow> 'c option"

text \<open>Every call that leaves the process is recorded, in order, attempted or completed.\<close>

datatype fs_action =
    Exec string
  | Access path
  | Rm path
  | Rename path path
  | SetTimeoutRm path nat

datatype rebuild_error =
    CommandFailed string
  | NewBuildMissing
  | SwapFailed string
  | SwapAndRollbackFailed

text \<open>
  The console lines of \<open>triggerRebuild\<close>; \<open>LogCriticalRollback\<close> and
  \<open>LogRebuildFailed\<close> are the two \<open>console.error\<close> calls.
\<close>

datatype log_entry =
    LogStarting
  | LogBuildingClient
  | LogPrerendering
  | LogSwapping
  | LogRolledBack
  | LogCriticalRollback string
  | LogComplete
  | LogRebuildFailed rebuild_error

text \<open>
  The message of the returned object:
  \<^item> \<open>AlreadyInProgress\<close>: "A rebuild is already in progress. Please wait."
  \<^item> \<open>PleaseWait n\<close>: "Please wait \<open>n\<close>s before rebuilding again."
  \<^item> \<open>ProductionOnly\<close>: "Rebuilds only run in production mode. ..."
  \<^item> \<open>RebuildFailed err\<close>: "Rebuild failed: " followed by the message of the error, which is
    the command's own message for \<open>CommandFailed\<close>, "New build directory not found. Build
    may have failed." for \<open>NewBuildMissing\<close>, "Swap failed: " and the rename's message for
    \<open>SwapFailed\<close>, and "Swap and rollback both failed. Manual intervention may be
    required." for \<open>SwapAndRollbackFailed\<close>
  \<^item> \<open>RebuiltSuccessfully\<close>: "Static site rebuilt successfully. New version is now live!"
\<close>

datatype message =
    AlreadyInProgress
  | PleaseWait int
  | ProductionOnly
  | RebuildFailed rebuild_error
  | RebuiltSuccessfully

record rebuild_result =
  success :: bool
  message :: message

record 'c world =
  files :: "'c fs"
  trace :: "fs_action list"
  console :: "log_entry list"

text \<open>
  What the process cannot decide itself: the mode it runs in, what the two build commands
  do to the file system and whether they exit with an error (\<open>Some\<close> its message), and
  which file-system calls are made to fail.
\<close>

record 'c env =
  production :: bool
  vite_build :: "'c fs \<Rightarrow> string option \<times> 'c fs"
  prerender :: "'c fs \<Rightarrow> string option \<times> 'c fs"
  rm_fault :: "path \<Rightarrow> string option"
  rename_fault :: "path \<Rightarrow> path \<Rightarrow> string option"

text \<open>The module-level variables \<open>isRebuilding\<close> and \<open>lastRebuildTime\<close>.\<close>

record rebuild_state =
  isRebuilding :: bool
  lastRebuildTime :: int

definition REBUILD_COOLDOWN :: int where
  "REBUILD_COOLDOWN = 10000"

definition emit :: "fs_action \<Rightarrow> 'c world \<Rightarrow> 'c world" where
  "emit a w = w\<lparr>trace := trace w @ [a]\<rparr>"

definition console_log :: "log_entry \<Rightarrow> 'c world \<Rightarrow> 'c world" where
  "console_log l w = w\<lparr>console := console w @ [l]\<rparr>"

text \<open>\<open>await execAsync(cmd)\<close>: the command runs to its end; a non-zero exit rejects.\<close>

definition exec ::
  "string \<Rightarrow> ('c fs \<Rightarrow> string option \<times> 'c fs) \<Rightarrow> 'c world \<Rightarrow> string option \<times> 'c world" where
  "exec cmd tool w =
     (case tool (files w) of (r, f') \<Rightarrow> (r, emit (Exec cmd) (w\<lparr>files := f'\<rparr>)))"

text \<open>\<open>access(p)\<close> resolves when the path exists and rejects otherwise.\<close>

definition access :: "path \<Rightarrow> 'c world \<Rightarrow> bool \<times> 'c world" where
  "access p w = (files w p \<noteq> None, emit (Access p) w)"

text \<open>\<open>rm(p, {recursive: true, force: true})\<close>: a missing path is no error.\<close>

definition rm :: "'c env \<Rightarrow> path \<Rightarrow> 'c world \<Rightarrow> string option \<times> 'c world" where
  "rm e p w =
     (case rm_fault e p of
        Some msg \<Rightarrow> (Some msg, emit (Rm p) w)
      | None \<Rightarrow> (None, emit (Rm p) (w\<lparr>files := (files w)(p := None)\<rparr>)))"

text \<open>
  \<open>rename(src, dst)\<close> moves the whole tree in one step or fails and changes nothing. It
  fails when the source is missing and whenever the environment says so.
\<close>

definition rename :: "'c env \<Rightarrow> path \<Rightarrow> path \<Rightarrow> 'c world \<Rightarrow> string option \<times> 'c world" where
  "rename e src dst w =
     (case rename_fault e src dst of
        Some msg \<Rightarrow> (Some msg, emit (Rename src dst) w)
      | None \<Rightarrow>
          (case files w src of
             None \<Rightarrow> (Some ''ENOENT'', emit (Rename src dst) w)
           | Some d \<Rightarrow>
               (None, emit (Rename src dst) (w\<lparr>files := (files w)(dst := Some d, src := None)\<rparr>))))"

subsection \<open>triggerRebuild\<close>

text \<open>
  Steps 1 and 2 and the check that the new build exists. The result is the error thrown
  to the outer \<open>catch\<close>, if any.
\<close>

definition run_build :: "'c env \<Rightarrow> 'c world \<Rightarrow> rebuild_error option \<times> 'c world" where
  "run_build e w =
     (case exec ''vite build'' (vite_build e) (console_log LogBuildingClient (console_log LogStarting w)) of
        (Some msg, w1) \<Rightarrow> (Some (CommandFailed msg), w1)
      | (None, w1) \<Rightarrow>
          (case exec ''tsx scripts/prerender-ssr.tsx'' (prerender e) (console_log LogPrerendering w1) of
             (Some msg, w2) \<Rightarrow> (Some (CommandFailed msg), w2)
           | (None, w2) \<Rightarrow>
               (case access TempPublicDir (console_log LogSwapping w2) of
                  (True, w3) \<Rightarrow> (None, w3)
                | (False, w3) \<Rightarrow> (Some NewBuildMissing, w3))))"

text \<open>"Clean up old backup if it exists": every error inside is swallowed.\<close>

definition cleanup_old_backup :: "'c env \<Rightarrow> 'c world \<Rightarrow> 'c world" where
  "cleanup_old_backup e w =
     (case access OldPublicDir w of
        (True, w1) \<Rightarrow> snd (rm e OldPublicDir w1)
      | (False, w1) \<Rightarrow> w1)"

text \<open>
  The \<open>catch (swapError)\<close> block. \<open>swapSuccessful\<close> is still false whenever it runs: the
  only statement after the assignment is the \<open>setTimeout\<close> call, which does not throw.
\<close>

definition rollback :: "'c env \<Rightarrow> string \<Rightarrow> 'c world \<Rightarrow> rebuild_error \<times> 'c world" where
  "rollback e swapMsg w =
     (case access OldPublicDir w of
        (True, w1) \<Rightarrow>
          (case rename e OldPublicDir PublicDir w1 of
             (Some rb, w2) \<Rightarrow> (SwapAndRollbackFailed, console_log (LogCriticalRollback rb) w2)
           | (None, w2) \<Rightarrow> (SwapFailed swapMsg, console_log LogRolledBack w2))
      | (False, w1) \<Rightarrow> (SwapFailed swapMsg, w1))"

text \<open>"Perform atomic swap with rollback on failure".\<close>

definition atomic_swap :: "'c env \<Rightarrow> 'c world \<Rightarrow> rebuild_error option \<times> 'c world" where
  "atomic_swap e w =
     (case access PublicDir w of (publicExists, w1) \<Rightarrow>
        (case (if publicExists then rename e PublicDir OldPublicDir w1 else (None, w1)) of
           (Some msg, w2) \<Rightarrow> (case rollback e msg w2 of (err, w3) \<Rightarrow> (Some err, w3))
         | (None, w2) \<Rightarrow>
             (case rename e TempPublicDir PublicDir w2 of
                (Some msg, w3) \<Rightarrow> (case rollback e msg w3 of (err, w4) \<Rightarrow> (Some err, w4))
              | (None, w3) \<Rightarrow>
                  (None, if publicExists then emit (SetTimeoutRm OldPublicDir 5000) w3 else w3))))"

text \<open>The body of the outer \<open>try\<close>.\<close>

definition rebuild_body :: "'c env \<Rightarrow> 'c world \<Rightarrow> rebuild_error option \<times> 'c world" where
  "rebuild_body e w =
     (case run_build e w of
        (Some err, w1) \<Rightarrow> (Some err, w1)
      | (None, w1) \<Rightarrow>
          (case atomic_swap e (cleanup_old_backup e w1) of
             (Some err, w2) \<Rightarrow> (Some err, w2)
           | (None, w2) \<Rightarrow> (None, console_log LogComplete w2)))"

text \<open>
  \<open>Math.ceil((REBUILD_COOLDOWN - (now - lastRebuildTime)) / 1000)\<close> on integer
  milliseconds.
\<close>

definition cooldown_remaining :: "int \<Rightarrow> int \<Rightarrow> int" where
  "cooldown_remaining now prev = - ((- (REBUILD_COOLDOWN - (now - prev))) div 1000)"

text \<open>
  An \<open>async\<close> function runs without interruption up to its first \<open>await\<close>, here the first
  \<open>execAsync\<close>. \<open>triggerRebuild_enter\<close> is that part: the three guards and the two
  assignments. \<open>triggerRebuild_run\<close> is the rest, with the outer \<open>catch\<close> and \<open>finally\<close>.
\<close>

definition triggerRebuild_enter ::
  "'c env \<Rightarrow> int \<Rightarrow> rebuild_state \<Rightarrow> rebuild_result + rebuild_state" where
  "triggerRebuild_enter e now st =
     (if isRebuilding st then Inl \<lparr>success = False, message = AlreadyInProgress\<rparr>
      else if now - lastRebuildTime st < REBUILD_COOLDOWN
        then Inl \<lparr>success = False, message = PleaseWait (cooldown_remaining now (lastRebuildTime st))\<rparr>
      else if \<not> production e then Inl \<lparr>success = False, message = ProductionOnly\<rparr>
      else Inr (st\<lparr>isRebuilding := True, lastRebuildTime := now\<rparr>))"

definition triggerRebuild_run ::
  "'c env \<Rightarrow> rebuild_state \<Rightarrow> 'c world \<Rightarrow> rebuild_result \<times> rebuild_state \<times> 'c world" where
  "triggerRebuild_run e st w =
     (case rebuild_body e w of
        (None, w') \<Rightarrow>
          (\<lparr>success = True, message = RebuiltSuccessfully\<rparr>, st\<lparr>isRebuilding := False\<rparr>, w')
      | (Some err, w') \<Rightarrow>
          (\<lparr>success = False, message = RebuildFailed err\<rparr>, st\<lparr>isRebuilding := False\<rparr>,
           console_log (LogRebuildFailed err) w'))"

definition triggerRebuild ::
  "'c env \<Rightarrow> int \<Rightarrow> rebuild_state \<Rightarrow> 'c world \<Rightarrow> rebuild_result \<times> rebuild_state \<times> 'c world" where
  "triggerRebuild e now st w =
     (case triggerRebuild_enter e now st of
        Inl rejected \<Rightarrow> (rejected, st, w)
      | Inr st1 \<Rightarrow> triggerRebuild_run e st1 w)"

text \<open>
  \<open>getRebuildStatus\<close>; \<open>lastRebuildTime\<close> is shown as a date, or \<open>null\<close> when it is not
  positive.
\<close>

record rebuild_status =
  status_isRebuilding :: bool
  status_lastRebuildTime :: "int option"
  status_canRebuild :: bool

definition getRebuildStatus :: "int \<Rightarrow> rebuild_state \<Rightarrow> rebuild_status" where
  "getRebuildStatus now st =
     \<lparr>status_isRebuilding = isRebuilding st,
      status_lastRebuildTime = (if lastRebuildTime st > 0 then Some (lastRebuildTime st) else None),
      status_canRebuild = (\<not> isRebuilding st \<and> now - lastRebuildTime st \<ge> REBUILD_COOLDOWN)\<rparr>"

subsection \<open>POST /api/admin/rebuild\<close>

text \<open>
  The handler awaits \<open>triggerRebuild()\<close>, drops the value and answers with a fixed body.
  Its \<open>catch\<close> would answer 500, but \<open>triggerRebuild\<close> returns an object on every path:
  nothing before its \<open>try\<close> throws, and its own \<open>catch\<close> turns every error into a result.
\<close>

record http_rebuild_response =
  http_status :: nat
  body_success :: bool
  body_message :: string

definition post_admin_rebuild ::
  "'c env \<Rightarrow> int \<Rightarrow> rebuild_state \<Rightarrow> 'c world \<Rightarrow> http_rebuild_response \<times> rebuild_state \<times> 'c world" where
  "post_admin_rebuild e now st w =
     (case triggerRebuild e now st w of
        (result, st', w') \<Rightarrow>
          (\<lparr>http_status = 200, body_success = True, body_message = ''Rebuild started''\<rparr>, st', w'))"


section \<open>Documents, the store and the routes\<close>

subsection \<open>JavaScript values and documents\<close>

text \<open>
  The values a JSON body or a stored document can hold. \<open>JNum\<close> carries the integers
  (identifiers, counts, times in milliseconds); \<open>JNaN\<close> is what \<open>parseInt\<close> returns for
  a string with no digits. A property that is absent reads as \<open>undefined\<close>, here \<open>None\<close>.
\<close>

datatype jsval =
    JNull
  | JBool bool
  | JNum int
  | JNaN
  | JStr js_string
  | JArr "jsval list"
  | JObj "(string \<times> jsval) list"

text \<open>
  A plain object is its list of properties in insertion order. The native key \<open>_id\<close>
  is kept apart and typed: the shared schema declares it as an optional string for every
  collection, the embedded store generates a string, and the networked store's object
  identifier is used through \<open>toString()\<close> only. \<open>field d k\<close> is the read \<open>d[k]\<close>.
\<close>

type_synonym props = "(string \<times> jsval) list"

record doc =
  native :: "js_string option"
  props :: props

definition field :: "doc \<Rightarrow> string \<Rightarrow> jsval option" where
  "field d k = (if k = ''_id'' then map_option JStr (native d) else map_of (props d) k)"

text \<open>
  \<open>obj[k] = v\<close>: an existing property keeps its place, a new one goes last.
\<close>

fun set_prop :: "string \<Rightarrow> jsval \<Rightarrow> props \<Rightarrow> props" where
  "set_prop k v [] = [(k, v)]"
| "set_prop k v ((k', v') # ps) = (if k' = k then (k, v) # ps else (k', v') # set_prop k v ps)"

definition set_field :: "string \<Rightarrow> jsval \<Rightarrow> doc \<Rightarrow> doc" where
  "set_field k v d = d\<lparr>props := set_prop k v (props d)\<rparr>"

text \<open>
  \<open>{...a, ...b}\<close> and \<open>Object.assign(a, b)\<close>: the properties of \<open>b\<close> are written over
  those of \<open>a\<close>, in the order of \<open>b\<close>.
\<close>

definition spread :: "doc \<Rightarrow> doc \<Rightarrow> doc" where
  "spread a b =
     \<lparr>native = (case native b of Some s \<Rightarrow> Some s | None \<Rightarrow> native a),
      props = fold (\<lambda>(k, v). set_prop k v) (props b) (props a)\<rparr>"

text \<open>
  \<open>const {k, ...rest} = obj\<close>.
\<close>

definition without :: "string \<Rightarrow> doc \<Rightarrow> doc" where
  "without k d = d\<lparr>props := filter (\<lambda>(k', v). k' \<noteq> k) (props d)\<rparr>"

text \<open>
  What \<open>if (x)\<close> and \<open>!x\<close> test.
\<close>

fun truthy :: "jsval option \<Rightarrow> bool" where
  "truthy None = False"
| "truthy (Some JNull) = False"
| "truthy (Some (JBool b)) = b"
| "truthy (Some (JNum n)) = (n \<noteq> 0)"
| "truthy (Some JNaN) = False"
| "truthy (Some (JStr s)) = (s \<noteq> [])"
| "truthy (Some (JArr xs)) = True"
| "truthy (Some (JObj fs)) = True"

text \<open>
  \<open>a === b\<close> on two values read from two different objects: primitives compare by
  value, \<open>NaN\<close> equals nothing, two arrays or objects are never the same object.
\<close>

fun strict_eq :: "jsval option \<Rightarrow> jsval option \<Rightarrow> bool" where
  "strict_eq None None = True"
| "strict_eq (Some JNull) (Some JNull) = True"
| "strict_eq (Some (JBool a)) (Some (JBool b)) = (a = b)"
| "strict_eq (Some (JNum a)) (Some (JNum b)) = (a = b)"
| "strict_eq (Some (JStr a)) (Some (JStr b)) = (a = b)"
| "strict_eq x y = False"

text \<open>
  \<open>parseInt(str, 10)\<close>: leading white space is skipped, one sign is read, then the
  longest run of decimal digits; with no digit the result is \<open>NaN\<close>, here \<open>None\<close>. The
  result is kept exact; the language rounds it to a double beyond \<open>2^53\<close>.
\<close>

definition isWhiteSpace :: "nat \<Rightarrow> bool" where
  "isWhiteSpace c =
     (c \<in> {9, 10, 11, 12, 13, 32, 160, 5760, 8232, 8233, 8239, 8287, 12288, 65279}
      \<or> (8192 \<le> c \<and> c \<le> 8202))"

definition isDigit :: "nat \<Rightarrow> bool" where
  "isDigit c = (48 \<le> c \<and> c \<le> 57)"

fun digits_value :: "int \<Rightarrow> js_string \<Rightarrow> int" where
  "digits_value acc [] = acc"
| "digits_value acc (c # cs) = digits_value (acc * 10 + (int c - 48)) cs"

definition parseInt10 :: "js_string \<Rightarrow> int option" where
  "parseInt10 str =
     (let s = dropWhile isWhiteSpace str;
          (sign, s') = (case s of
                          [] \<Rightarrow> (1, [])
                        | c # cs \<Rightarrow> if c = 45 then (- 1, cs) else if c = 43 then (1, cs) else (1, s));
          ds = takeWhile isDigit s'
      in if ds = [] then None else Some (sign * digits_value 0 ds))"

text \<open>
  The number a \<open>parseInt\<close> result is, as a value.
\<close>

definition number :: "int option \<Rightarrow> jsval" where
  "number r = (case r of None \<Rightarrow> JNaN | Some n \<Rightarrow> JNum n)"

subsection \<open>normalizeId\<close>

text \<open>
  What a call of the store or of a library can throw, and what the language throws when
  a value that is no function is called (\<open>TypeError\<close>).
\<close>

datatype store_error = UniqueViolated | IdChanged | InvalidFieldName | ValidationFailed | TypeError

text \<open>
  \<open>x.toObject ? x.toObject() : x\<close>. The embedded store returns plain objects, on which
  \<open>toObject\<close> is a property like any other: when it is absent or falsy the object itself
  is taken; when it is truthy it is a JSON value, and the call throws. A document of the
  networked backend has the library's method \<open>toObject\<close>, which returns its fields as a
  plain object.
\<close>

definition toObject :: "bool \<Rightarrow> doc \<Rightarrow> store_error + doc" where
  "toObject usingNeDB d =
     (if usingNeDB \<and> truthy (field d ''toObject'') then Inl TypeError else Inr d)"

text \<open>
  \<open>null\<close> is returned as it is; otherwise the document goes through \<open>toObject\<close>. On the
  embedded backend: a document with no truthy \<open>id\<close> and a truthy \<open>_id\<close> gets the hash of
  \<open>_id\<close>; otherwise a truthy string \<open>id\<close> is parsed to a number. On the networked
  backend: a document with a truthy \<open>_id\<close> and no truthy \<open>id\<close> gets the hash of
  \<open>_id.toString()\<close>.
\<close>

definition normalizeId :: "bool \<Rightarrow> doc option \<Rightarrow> store_error + doc option" where
  "normalizeId usingNeDB doc =
     (case doc of
        None \<Rightarrow> Inr None
      | Some d \<Rightarrow>
          (case toObject usingNeDB d of
             Inl err \<Rightarrow> Inl err
           | Inr obj \<Rightarrow>
               Inr (Some (if usingNeDB then
                  (case native obj of
                     Some s \<Rightarrow>
                       if \<not> truthy (field obj ''id'') \<and> s \<noteq> []
                         then set_field ''id'' (JNum (hashStringToNumber s)) obj
                       else (case field obj ''id'' of
                               Some (JStr i) \<Rightarrow>
                                 if i \<noteq> [] then set_field ''id'' (number (parseInt10 i)) obj else obj
                             | _ \<Rightarrow> obj)
                   | None \<Rightarrow>
                       (case field obj ''id'' of
                          Some (JStr i) \<Rightarrow>
                            if i \<noteq> [] then set_field ''id'' (number (parseInt10 i)) obj else obj
                        | _ \<Rightarrow> obj))
                else
                  (case native obj of
                     Some s \<Rightarrow>
                       if s \<noteq> [] \<and> \<not> truthy (field obj ''id'')
                         then set_field ''id'' (JNum (hashStringToNumber s)) obj
                       else obj
                   | None \<Rightarrow> obj)))))"

subsection \<open>The embedded store (server/nedb: NeDBModel)\<close>

text \<open>
  A collection is the list of its documents in the order the store walks them. The
  functions below follow \<open>NeDBModel\<close>; each wraps one call of the datastore, whose
  behaviour is written out as its documentation gives it. An error is the rejection of
  the promise.
\<close>

type_synonym query = "(string \<times> jsval) list"

text \<open>
  A query is an object of property/value pairs, all of which must hold. A pair holds
  when the document's value equals the query's; an array in the document also matches
  when one of its elements does; \<open>undefined\<close> and \<open>NaN\<close> match nothing.
\<close>

definition things_equal :: "jsval \<Rightarrow> jsval \<Rightarrow> bool" where
  "things_equal a b = (a = b \<and> a \<noteq> JNaN)"

fun query_part :: "jsval option \<Rightarrow> jsval \<Rightarrow> bool" where
  "query_part None v = False"
| "query_part (Some (JArr xs)) (JArr ys) = things_equal (JArr xs) (JArr ys)"
| "query_part (Some (JArr xs)) v = list_ex (\<lambda>x. things_equal x v) xs"
| "query_part (Some a) v = things_equal a v"

definition matches :: "query \<Rightarrow> doc \<Rightarrow> bool" where
  "matches q d = list_all (\<lambda>(k, v). query_part (field d k) v) q"

text \<open>
  A stored document may not have a property name that starts with \<open>$\<close> or contains a
  dot, at any depth. (An update object whose names all start with \<open>$\<close> is a modifier;
  the routes build none but the \<open>$set\<close> of \<open>updateOne_set\<close>.)
\<close>

definition valid_key :: "string \<Rightarrow> bool" where
  "valid_key k = ((case k of [] \<Rightarrow> True | c # cs \<Rightarrow> c \<noteq> CHR ''$'') \<and> CHR ''.'' \<notin> set k)"

fun checkValue :: "jsval \<Rightarrow> bool" where
  "checkValue (JArr xs) = (\<forall>x \<in> set xs. checkValue x)"
| "checkValue (JObj fs) = (\<forall>p \<in> set fs. valid_key (fst p) \<and> checkValue (snd p))"
| "checkValue v = True"

definition checkObject :: "doc \<Rightarrow> bool" where
  "checkObject d = list_all (\<lambda>(k, v). valid_key k \<and> checkValue v) (props d)"

text \<open>
  \<open>findOne\<close>, \<open>find\<close> and \<open>countDocuments\<close>.
\<close>

definition findOne :: "query \<Rightarrow> doc list \<Rightarrow> doc option" where
  "findOne q coll = List.find (matches q) coll"

definition find_docs :: "query \<Rightarrow> doc list \<Rightarrow> doc list" where
  "find_docs q coll = filter (matches q) coll"

definition countDocuments :: "query \<Rightarrow> doc list \<Rightarrow> nat" where
  "countDocuments q coll = length (filter (matches q) coll)"

text \<open>
  \<open>create\<close> is the datastore's \<open>insert\<close>: a document without \<open>_id\<close> gets the fresh
  key, the names are checked, and \<open>_id\<close> must be new in the collection.
\<close>

definition create :: "js_string \<Rightarrow> doc \<Rightarrow> doc list \<Rightarrow> store_error + doc \<times> doc list" where
  "create fresh d coll =
     (let newDoc = (case native d of None \<Rightarrow> d\<lparr>native := Some fresh\<rparr> | Some s \<Rightarrow> d) in
      if \<not> checkObject newDoc then Inl InvalidFieldName
      else if list_ex (\<lambda>x. native x = native newDoc) coll then Inl UniqueViolated
      else Inr (newDoc, coll @ [newDoc]))"

text \<open>
  \<open>updateOne(query, update)\<close> is \<open>update\<close> with no option: the first match only. An
  update without modifiers replaces the whole document but keeps its \<open>_id\<close>; an
  \<open>_id\<close> in the update that differs is an error. \<open>updateOne_set\<close> is the update
  \<open>{$set: {k: v}}\<close>.
\<close>

fun modify_first ::
  "(doc \<Rightarrow> bool) \<Rightarrow> (doc \<Rightarrow> store_error + doc) \<Rightarrow> doc list \<Rightarrow> store_error + nat \<times> doc list" where
  "modify_first P f [] = Inr (0, [])"
| "modify_first P f (d # ds) =
     (if P d then (case f d of Inl err \<Rightarrow> Inl err | Inr d' \<Rightarrow> Inr (1, d' # ds))
      else (case modify_first P f ds of
              Inl err \<Rightarrow> Inl err
            | Inr (n, ds') \<Rightarrow> Inr (n, d # ds')))"

definition replacement :: "doc \<Rightarrow> doc \<Rightarrow> store_error + doc" where
  "replacement upd old =
     (if native upd \<noteq> None \<and> native upd \<noteq> native old then Inl IdChanged
      else if \<not> checkObject upd then Inl InvalidFieldName
      else Inr (upd\<lparr>native := native old\<rparr>))"

definition updateOne :: "query \<Rightarrow> doc \<Rightarrow> doc list \<Rightarrow> store_error + nat \<times> doc list" where
  "updateOne q upd coll = modify_first (matches q) (replacement upd) coll"

definition updateOne_set ::
  "query \<Rightarrow> string \<Rightarrow> jsval \<Rightarrow> doc list \<Rightarrow> store_error + nat \<times> doc list" where
  "updateOne_set q k v coll =
     modify_first (matches q)
       (\<lambda>old. if valid_key k \<and> checkValue v then Inr (set_field k v old) else Inl InvalidFieldName) coll"

text \<open>
  \<open>deleteOne(query)\<close> is \<open>remove\<close> with no option: the first match only.
\<close>

fun remove_first :: "(doc \<Rightarrow> bool) \<Rightarrow> doc list \<Rightarrow> nat \<times> doc list" where
  "remove_first P [] = (0, [])"
| "remove_first P (d # ds) =
     (if P d then (1, ds) else (case remove_first P ds of (n, ds') \<Rightarrow> (n, d # ds')))"

definition deleteOne :: "query \<Rightarrow> doc list \<Rightarrow> nat \<times> doc list" where
  "deleteOne q coll = remove_first (matches q) coll"

text \<open>
  \<open>findByIdAndUpdate\<close> and \<open>findByIdAndDelete\<close> of \<open>NeDBModel\<close>: find, merge, replace.
  On the networked backend the routes call the library's functions of the same names,
  which set the given properties on the one document with that \<open>_id\<close>, or remove it;
  the same two functions stand for them.
\<close>

definition findByIdAndUpdate ::
  "js_string \<Rightarrow> doc \<Rightarrow> doc list \<Rightarrow> store_error + doc option \<times> doc list" where
  "findByIdAndUpdate i upd coll =
     (case findOne [(''_id'', JStr i)] coll of
        None \<Rightarrow> Inr (None, coll)
      | Some d \<Rightarrow>
          (case updateOne [(''_id'', JStr i)] (spread d upd) coll of
             Inl err \<Rightarrow> Inl err
           | Inr (numAffected, coll') \<Rightarrow>
               if numAffected = 0 then Inr (None, coll')
               else Inr (findOne [(''_id'', JStr i)] coll', coll')))"

definition findByIdAndDelete :: "js_string \<Rightarrow> doc list \<Rightarrow> doc option \<times> doc list" where
  "findByIdAndDelete i coll =
     (case findOne [(''_id'', JStr i)] coll of
        None \<Rightarrow> (None, coll)
      | Some d \<Rightarrow>
          (case deleteOne [(''_id'', JStr i)] coll of
             (numRemoved, coll') \<Rightarrow> if numRemoved = 0 then (None, coll') else (Some d, coll')))"

text \<open>
  \<open>doc.save()\<close> of a document of the networked backend: the document is written back
  under its \<open>_id\<close>.
\<close>

definition save :: "doc \<Rightarrow> doc list \<Rightarrow> store_error + nat \<times> doc list" where
  "save d coll =
     (case native d of
        None \<Rightarrow> Inl ValidationFailed
      | Some i \<Rightarrow> updateOne [(''_id'', JStr i)] d coll)"

subsection \<open>Routes (server/routes, server/auth)\<close>

text \<open>
  What a handler takes from outside: the key the store gives the next inserted document,
  the two password functions (bcrypt), the validation of the networked backend's schema
  for the collection at hand, and the clock.
\<close>

record services =
  newId :: js_string
  hashPassword :: "js_string \<Rightarrow> js_string"
  verifyPassword :: "js_string \<Rightarrow> jsval option \<Rightarrow> bool"
  schemaValid :: "doc \<Rightarrow> bool"
  clock :: int

datatype payload =
    Doc "doc option"
  | ErrorMsg string
  | Success
  | Message string

record response =
  status :: nat
  payload :: payload

text \<open>
  \<open>res.status(code).json(normalizeId(d))\<close> inside the handler's \<open>try\<close>: when
  \<open>normalizeId\<close> throws, the \<open>catch\<close> answers 500 with the handler's failure message.
\<close>

definition json_normalized :: "bool \<Rightarrow> nat \<Rightarrow> string \<Rightarrow> doc option \<Rightarrow> response" where
  "json_normalized usingNeDB code failure d =
     (case normalizeId usingNeDB d of
        Inl err \<Rightarrow> \<lparr>status = 500, payload = ErrorMsg failure\<rparr>
      | Inr obj \<Rightarrow> \<lparr>status = code, payload = Doc obj\<rparr>)"

text \<open>
  \<open>Model.create(doc)\<close> through the proxy: the embedded store inserts; the networked
  one validates against its schema first.
\<close>

definition model_create :: "bool \<Rightarrow> services \<Rightarrow> doc \<Rightarrow> doc list \<Rightarrow> store_error + doc \<times> doc list" where
  "model_create usingNeDB sv d coll =
     (if usingNeDB then create (newId sv) d coll
      else if schemaValid sv d then create (newId sv) d coll
      else Inl ValidationFailed)"

text \<open>
  \<open>all.find(u => hashStringToNumber(u._id) === target)\<close>, on either backend (there with
  \<open>u._id.toString()\<close>). A document without \<open>_id\<close> on the way throws. The target is the
  result of \<open>parseInt\<close>; \<open>NaN\<close> equals no hash.
\<close>

fun find_by_hash :: "int option \<Rightarrow> doc list \<Rightarrow> store_error + doc option" where
  "find_by_hash target [] = Inr None"
| "find_by_hash target (u # us) =
     (case native u of
        None \<Rightarrow> Inl TypeError
      | Some s \<Rightarrow>
          if Some (hashStringToNumber s) = target then Inr (Some u) else find_by_hash target us)"

definition ADMIN_EMAIL :: js_string where
  "ADMIN_EMAIL = utf16 ''admin@quillyourdream.com''"

definition admin_role :: jsval where
  "admin_role = JStr (utf16 ''admin'')"

definition user_role :: jsval where
  "user_role = JStr (utf16 ''user'')"

text \<open>
  The session: \<open>passport.deserializeUser\<close> loads the user by the \<open>_id\<close> of the session
  and drops the password; \<open>isAdmin\<close> lets the request pass when that user's role is
  \<open>admin\<close>.
\<close>

definition deserializeUser :: "js_string \<Rightarrow> doc list \<Rightarrow> doc option" where
  "deserializeUser sid users = map_option (without ''password'') (findOne [(''_id'', JStr sid)] users)"

definition isAdmin :: "doc option \<Rightarrow> bool" where
  "isAdmin u = (case u of None \<Rightarrow> False | Some r \<Rightarrow> strict_eq (field r ''role'') (Some admin_role))"

text \<open>
  Start of the process on the embedded backend, as far as the users are concerned:
  \<open>initNeDB\<close> inserts the default admin when no user has its e-mail address, and fails
  with the insert. (\<open>setupAuth\<close>, which runs next, then finds that user and only logs.)
\<close>

definition initNeDB_admin :: "services \<Rightarrow> doc list \<Rightarrow> store_error + doc list" where
  "initNeDB_admin sv users =
     (if findOne [(''email'', JStr ADMIN_EMAIL)] users \<noteq> None then Inr users
      else (case create (newId sv)
                   \<lparr>native = None,
                      props = [(''email'', JStr ADMIN_EMAIL),
                               (''password'', JStr (hashPassword sv (utf16 ''admin123''))),
                               (''role'', admin_role),
                               (''createdAt'', JNum (clock sv))]\<rparr> users of
              Inl err \<Rightarrow> Inl err
            | Inr (d, users') \<Rightarrow> Inr users'))"

text \<open>
  \<open>POST /api/admin/users\<close>, after validation: the address, the password and the role
  (\<open>admin\<close> or \<open>user\<close>).
\<close>

definition post_admin_users ::
  "bool \<Rightarrow> services \<Rightarrow> js_string \<Rightarrow> js_string \<Rightarrow> bool \<Rightarrow> doc list \<Rightarrow> response \<times> doc list" where
  "post_admin_users usingNeDB sv email password asAdmin users =
     (if findOne [(''email'', JStr email)] users \<noteq> None
        then (\<lparr>status = 400, payload = ErrorMsg ''User with this email already exists''\<rparr>, users)
      else
        (case model_create usingNeDB sv
                \<lparr>native = None,
                   props = [(''email'', JStr email),
                            (''password'', JStr (hashPassword sv password)),
                            (''role'', if asAdmin then admin_role else user_role)]\<rparr> users of
           Inl err \<Rightarrow> (\<lparr>status = 500, payload = ErrorMsg ''Failed to create user''\<rparr>, users)
         | Inr (user, users') \<Rightarrow>
             (case toObject usingNeDB user of
                Inl err \<Rightarrow> (\<lparr>status = 500, payload = ErrorMsg ''Failed to create user''\<rparr>, users')
              | Inr userObj \<Rightarrow>
                  (json_normalized usingNeDB 201 ''Failed to create user''
                     (Some (without ''password'' userObj)),
                   users'))))"

text \<open>
  \<open>DELETE /api/admin/users/:id\<close>. \<open>reqUser\<close> is \<open>req.user\<close>.
\<close>

definition delete_admin_user ::
  "bool \<Rightarrow> js_string \<Rightarrow> doc \<Rightarrow> doc list \<Rightarrow> response \<times> doc list" where
  "delete_admin_user usingNeDB idParam reqUser users =
     (case parseInt10 idParam of
        None \<Rightarrow> (\<lparr>status = 400, payload = ErrorMsg ''Invalid user ID''\<rparr>, users)
      | Some targetId \<Rightarrow>
          if usingNeDB then
            (case find_by_hash (Some targetId) users of
               Inl err \<Rightarrow> (\<lparr>status = 500, payload = ErrorMsg ''Failed to delete user''\<rparr>, users)
             | Inr None \<Rightarrow> (\<lparr>status = 404, payload = ErrorMsg ''User not found''\<rparr>, users)
             | Inr (Some targetUser) \<Rightarrow>
                 if strict_eq (field targetUser ''email'') (field reqUser ''email'')
                   then (\<lparr>status = 400, payload = ErrorMsg ''Cannot delete your own account''\<rparr>, users)
                 else (case field targetUser ''_id'' of
                         None \<Rightarrow> (\<lparr>status = 200, payload = Success\<rparr>, users)
                       | Some i \<Rightarrow>
                           (\<lparr>status = 200, payload = Success\<rparr>, snd (deleteOne [(''_id'', i)] users))))
          else
            (case find_by_hash (Some targetId) users of
               Inl err \<Rightarrow> (\<lparr>status = 500, payload = ErrorMsg ''Failed to delete user''\<rparr>, users)
             | Inr None \<Rightarrow> (\<lparr>status = 404, payload = ErrorMsg ''User not found''\<rparr>, users)
             | Inr (Some targetUser) \<Rightarrow>
                 (case (native targetUser, native reqUser) of
                    (Some t, Some r) \<Rightarrow>
                      if t = r
                        then (\<lparr>status = 400, payload = ErrorMsg ''Cannot delete your own account''\<rparr>, users)
                      else (\<lparr>status = 200, payload = Success\<rparr>, snd (findByIdAndDelete t users))
                  | _ \<Rightarrow> (\<lparr>status = 500, payload = ErrorMsg ''Failed to delete user''\<rparr>, users))))"

text \<open>
  \<open>PATCH /api/auth/password\<close>, after validation.
\<close>

definition patch_auth_password ::
  "bool \<Rightarrow> services \<Rightarrow> doc \<Rightarrow> js_string \<Rightarrow> js_string \<Rightarrow> doc list \<Rightarrow> response \<times> doc list" where
  "patch_auth_password usingNeDB sv reqUser currentPassword newPassword users =
     (case field reqUser (if usingNeDB then ''email'' else ''_id'') of
        None \<Rightarrow> (\<lparr>status = 404, payload = ErrorMsg ''User not found''\<rparr>, users)
      | Some key \<Rightarrow>
          (case findOne [(if usingNeDB then ''email'' else ''_id'', key)] users of
             None \<Rightarrow> (\<lparr>status = 404, payload = ErrorMsg ''User not found''\<rparr>, users)
           | Some userWithPassword \<Rightarrow>
               if \<not> verifyPassword sv currentPassword (field userWithPassword ''password'')
                 then (\<lparr>status = 400, payload = ErrorMsg ''Current password is incorrect''\<rparr>, users)
               else
                 (case updateOne_set [(if usingNeDB then ''email'' else ''_id'', key)]
                         ''password'' (JStr (hashPassword sv newPassword)) users of
                    Inl err \<Rightarrow> (\<lparr>status = 500, payload = ErrorMsg ''Failed to update password''\<rparr>, users)
                  | Inr (n, users') \<Rightarrow>
                      (\<lparr>status = 200, payload = Message ''Password updated successfully''\<rparr>, users'))))"

text \<open>
  \<open>POST /api/admin/faqs\<close> and \<open>PATCH /api/admin/faqs/:id\<close>. The body is not validated.
\<close>

definition post_admin_faqs :: "bool \<Rightarrow> services \<Rightarrow> doc \<Rightarrow> doc list \<Rightarrow> response \<times> doc list" where
  "post_admin_faqs usingNeDB sv body faqs =
     (case model_create usingNeDB sv body faqs of
        Inl err \<Rightarrow> (\<lparr>status = 500, payload = ErrorMsg ''Failed to create FAQ''\<rparr>, faqs)
      | Inr (faq, faqs') \<Rightarrow>
          (json_normalized usingNeDB 201 ''Failed to create FAQ'' (Some faq), faqs'))"

definition patch_admin_faqs ::
  "bool \<Rightarrow> js_string \<Rightarrow> doc \<Rightarrow> doc list \<Rightarrow> response \<times> doc list" where
  "patch_admin_faqs usingNeDB idParam body faqs =
     (if usingNeDB then
        (let numericId = number (parseInt10 idParam) in
         case findOne [(''id'', numericId)] faqs of
           None \<Rightarrow> (\<lparr>status = 404, payload = ErrorMsg ''FAQ not found''\<rparr>, faqs)
         | Some existingFaq \<Rightarrow>
             (case toObject True existingFaq of
                Inl err \<Rightarrow> (\<lparr>status = 500, payload = ErrorMsg ''Failed to update FAQ''\<rparr>, faqs)
              | Inr existingData \<Rightarrow>
                  (case updateOne [(''id'', numericId)] (spread existingData body) faqs of
                     Inl err \<Rightarrow> (\<lparr>status = 500, payload = ErrorMsg ''Failed to update FAQ''\<rparr>, faqs)
                   | Inr (n, faqs') \<Rightarrow>
                       (json_normalized True 200 ''Failed to update FAQ''
                          (findOne [(''id'', numericId)] faqs'),
                        faqs'))))
      else
        (case (if truthy (field body ''_id'')
               then (case native body of
                       Some i \<Rightarrow> findByIdAndUpdate i body faqs
                     | None \<Rightarrow> Inr (None, faqs))
               else (case find_by_hash (parseInt10 idParam) faqs of
                       Inl err \<Rightarrow> Inl err
                     | Inr None \<Rightarrow> Inr (None, faqs)
                     | Inr (Some targetFaq) \<Rightarrow>
                         (case native targetFaq of
                            Some i \<Rightarrow> findByIdAndUpdate i body faqs
                          | None \<Rightarrow> Inl TypeError))) of
           Inl err \<Rightarrow> (\<lparr>status = 500, payload = ErrorMsg ''Failed to update FAQ''\<rparr>, faqs)
         | Inr (None, faqs') \<Rightarrow> (\<lparr>status = 404, payload = ErrorMsg ''FAQ not found''\<rparr>, faqs')
         | Inr (Some faq, faqs') \<Rightarrow>
             (json_normalized False 200 ''Failed to update FAQ'' (Some faq), faqs')))"

text \<open>
  \<open>POST /api/admin/artworks\<close> and \<open>PATCH /api/admin/artworks/:id\<close>. \<open>validation\<close> is
  the result of \<open>insertArtworkSchema.safeParse\<close>: \<open>None\<close> when it fails, else the parsed
  data. On the embedded backend the new document's numeric id is written into the store.
\<close>

definition post_admin_artworks ::
  "services \<Rightarrow> bool \<Rightarrow> doc option \<Rightarrow> doc list \<Rightarrow> response \<times> doc list" where
  "post_admin_artworks sv usingNeDB validation artworks =
     (case validation of
        None \<Rightarrow> (\<lparr>status = 400, payload = ErrorMsg ''Validation error''\<rparr>, artworks)
      | Some data \<Rightarrow>
          (case model_create usingNeDB sv data artworks of
             Inl err \<Rightarrow> (\<lparr>status = 500, payload = ErrorMsg ''Failed to create artwork''\<rparr>, artworks)
           | Inr (artwork, artworks1) \<Rightarrow>
               if usingNeDB \<and> truthy (field artwork ''_id'') \<and> \<not> truthy (field artwork ''id'') then
                 (case native artwork of
                    None \<Rightarrow> (\<lparr>status = 500, payload = ErrorMsg ''Failed to create artwork''\<rparr>, artworks1)
                  | Some i \<Rightarrow>
                      (case updateOne [(''_id'', JStr i)]
                              (set_field ''id'' (JNum (hashStringToNumber i)) artwork) artworks1 of
                         Inl err \<Rightarrow>
                           (\<lparr>status = 500, payload = ErrorMsg ''Failed to create artwork''\<rparr>, artworks1)
                       | Inr (n, artworks2) \<Rightarrow>
                           (json_normalized usingNeDB 201 ''Failed to create artwork''
                              (findOne [(''_id'', JStr i)] artworks2),
                            artworks2)))
               else (json_normalized usingNeDB 201 ''Failed to create artwork'' (Some artwork),
                     artworks1)))"

definition patch_admin_artworks ::
  "bool \<Rightarrow> js_string \<Rightarrow> doc \<Rightarrow> doc list \<Rightarrow> response \<times> doc list" where
  "patch_admin_artworks usingNeDB idParam body artworks =
     (if usingNeDB then
        (let numericId = number (parseInt10 idParam) in
         case findOne [(''id'', numericId)] artworks of
           None \<Rightarrow> (\<lparr>status = 404, payload = ErrorMsg ''Artwork not found''\<rparr>, artworks)
         | Some existingArtwork \<Rightarrow>
             (case toObject True existingArtwork of
                Inl err \<Rightarrow>
                  (\<lparr>status = 500, payload = ErrorMsg ''Failed to update artwork''\<rparr>, artworks)
              | Inr existingData \<Rightarrow>
                  (case updateOne [(''id'', numericId)] (spread existingData body) artworks of
                     Inl err \<Rightarrow>
                       (\<lparr>status = 500, payload = ErrorMsg ''Failed to update artwork''\<rparr>, artworks)
                   | Inr (n, artworks') \<Rightarrow>
                       (json_normalized True 200 ''Failed to update artwork''
                          (findOne [(''id'', numericId)] artworks'),
                        artworks'))))
      else
        (case (if truthy (field body ''_id'')
               then (case native body of
                       Some i \<Rightarrow> findByIdAndUpdate i body artworks
                     | None \<Rightarrow> Inr (None, artworks))
               else (case find_by_hash (parseInt10 idParam) artworks of
                       Inl err \<Rightarrow> Inl err
                     | Inr None \<Rightarrow> Inr (None, artworks)
                     | Inr (Some targetArtwork) \<Rightarrow>
                         (case native targetArtwork of
                            Some i \<Rightarrow> findByIdAndUpdate i body artworks
                          | None \<Rightarrow> Inl TypeError))) of
           Inl err \<Rightarrow> (\<lparr>status = 500, payload = ErrorMsg ''Failed to update artwork''\<rparr>, artworks)
         | Inr (None, artworks') \<Rightarrow>
             (\<lparr>status = 404, payload = ErrorMsg ''Artwork not found''\<rparr>, artworks')
         | Inr (Some artwork, artworks') \<Rightarrow>
             (json_normalized False 200 ''Failed to update artwork'' (Some artwork), artworks')))"

text \<open>
  \<open>PATCH /api/admin/artist\<close> and \<open>PUT /api/admin/settings\<close>. With a document found, the
  handler runs \<open>Object.assign(doc, req.body); await doc.save()\<close>. The embedded store
  returns plain objects: \<open>save\<close> is a property read that yields \<open>undefined\<close> or a JSON
  value, never a function, and the call throws \<open>TypeError\<close>. On the networked backend
  the document is saved; its \<open>_id\<close> cannot change.
\<close>

definition assign_and_save :: "bool \<Rightarrow> doc \<Rightarrow> doc \<Rightarrow> doc list \<Rightarrow> store_error + doc \<times> doc list" where
  "assign_and_save usingNeDB d body coll =
     (let assigned = spread d body in
      if usingNeDB then Inl TypeError
      else if native assigned \<noteq> native d then Inl IdChanged
      else (case save assigned coll of
              Inl err \<Rightarrow> Inl err
            | Inr (n, coll') \<Rightarrow> Inr (assigned, coll')))"

definition patch_admin_artist ::
  "bool \<Rightarrow> services \<Rightarrow> doc \<Rightarrow> doc list \<Rightarrow> response \<times> doc list" where
  "patch_admin_artist usingNeDB sv body artist =
     (case (case findOne [] artist of
              None \<Rightarrow> model_create usingNeDB sv body artist
            | Some existing \<Rightarrow> assign_and_save usingNeDB existing body artist) of
        Inl err \<Rightarrow>
          (\<lparr>status = 500, payload = ErrorMsg ''Failed to update artist information''\<rparr>, artist)
      | Inr (d, artist') \<Rightarrow>
          (json_normalized usingNeDB 200 ''Failed to update artist information'' (Some d), artist'))"

definition put_admin_settings ::
  "bool \<Rightarrow> services \<Rightarrow> doc \<Rightarrow> doc list \<Rightarrow> response \<times> doc list" where
  "put_admin_settings usingNeDB sv body settings =
     (case (case findOne [] settings of
              None \<Rightarrow> model_create usingNeDB sv body settings
            | Some existing \<Rightarrow> assign_and_save usingNeDB existing body settings) of
        Inl err \<Rightarrow> (\<lparr>status = 500, payload = ErrorMsg ''Failed to update settings''\<rparr>, settings)
      | Inr (d, settings') \<Rightarrow> (\<lparr>status = 200, payload = Doc (Some d)\<rparr>, settings'))"


subsection \<open>Start of the process on the embedded backend (server/nedb: initNeDB)\<close>

text \<open>
  The five datastores. Each is loaded from its file, so a start finds the documents the
  last run left. The sample files \<open>server/data/*.json\<close> are given with, for each
  document, the key the store generates for it.
\<close>

datatype collection = Artworks | Artist | Faqs | Users | Settings

type_synonym database = "collection \<Rightarrow> doc list"

record samples =
  artworksData :: "(js_string \<times> doc) list"
  artistData :: "js_string \<times> doc"
  faqsData :: "(js_string \<times> doc) list"
  settingsKey :: js_string

text \<open>
  The inserts of one \<open>for\<close> loop: the first error is thrown, and the documents inserted
  before it stay.
\<close>

fun insert_each :: "(js_string \<times> doc) list \<Rightarrow> doc list \<Rightarrow> store_error option \<times> doc list" where
  "insert_each [] coll = (None, coll)"
| "insert_each ((fresh, d) # rest) coll =
     (case create fresh d coll of
        Inl err \<Rightarrow> (Some err, coll)
      | Inr (newDoc, coll') \<Rightarrow> insert_each rest coll')"

definition default_settings :: "services \<Rightarrow> doc" where
  "default_settings sv =
     \<lparr>native = None,
      props = [(''accentHue'', JNum 186), (''accentSaturation'', JNum 68),
               (''accentLightness'', JNum 45), (''createdAt'', JNum (clock sv))]\<rparr>"

text \<open>"Only load sample data if database is empty": artworks, artist, FAQs, settings.\<close>

definition load_samples :: "services \<Rightarrow> samples \<Rightarrow> database \<Rightarrow> store_error option \<times> database" where
  "load_samples sv sm db =
     (case insert_each (artworksData sm) (db Artworks) of
        (Some err, a) \<Rightarrow> (Some err, db(Artworks := a))
      | (None, a) \<Rightarrow>
          (case insert_each [artistData sm] (db Artist) of
             (Some err, ar) \<Rightarrow> (Some err, db(Artworks := a, Artist := ar))
           | (None, ar) \<Rightarrow>
               (case insert_each (faqsData sm) (db Faqs) of
                  (Some err, f) \<Rightarrow> (Some err, db(Artworks := a, Artist := ar, Faqs := f))
                | (None, f) \<Rightarrow>
                    (case insert_each [(settingsKey sm, default_settings sv)] (db Settings) of
                       (err, st) \<Rightarrow>
                         (err, db(Artworks := a, Artist := ar, Faqs := f, Settings := st))))))"

text \<open>
  \<open>initNeDB\<close> in a fresh process: the samples are loaded when there is no artwork, then
  the default admin is written when no user has its address. The result is the error
  thrown, if any, and the database as the call leaves it.
\<close>

definition initNeDB :: "services \<Rightarrow> samples \<Rightarrow> database \<Rightarrow> store_error option \<times> database" where
  "initNeDB sv sm db =
     (case (if countDocuments [] (db Artworks) > 0 then (None, db) else load_samples sv sm db) of
        (Some err, db1) \<Rightarrow> (Some err, db1)
      | (None, db1) \<Rightarrow>
          (case initNeDB_admin sv (db1 Users) of
             Inl err \<Rightarrow> (Some err, db1)
           | Inr users' \<Rightarrow> (None, db1(Users := users'))))"


section \<open>Notions used to state the properties\<close>


text \<open>
  The calls by which the orchestrator itself changes a directory. The build commands run
  as child processes; what they write is theirs.
\<close>

fun is_fs_mutation :: "fs_action \<Rightarrow> bool" where
  "is_fs_mutation (Exec c) = False"
| "is_fs_mutation (Access p) = False"
| "is_fs_mutation (Rm p) = True"
| "is_fs_mutation (Rename p q) = True"
| "is_fs_mutation (SetTimeoutRm p n) = True"

text \<open>
  The file system as the two build commands leave it (the second runs only if the first
  succeeded); the build phase fails when a command fails or \<open>dist/public.new\<close> is
  missing after both; the commands spare the live path when neither ever changes what is
  stored there.
\<close>

definition toolchain :: "'c env \<Rightarrow> 'c fs \<Rightarrow> 'c fs" where
  "toolchain e f =
     (case vite_build e f of
        (Some msg, f1) \<Rightarrow> f1
      | (None, f1) \<Rightarrow> snd (prerender e f1))"

definition build_fails :: "'c env \<Rightarrow> 'c fs \<Rightarrow> bool" where
  "build_fails e f =
     (case vite_build e f of
        (Some msg, f1) \<Rightarrow> True
      | (None, f1) \<Rightarrow>
          (case prerender e f1 of
             (Some msg, f2) \<Rightarrow> True
           | (None, f2) \<Rightarrow> f2 TempPublicDir = None))"


text \<open>
  Sample data: a live site (version 1), a build that produces version 2 or fails, and
  renames that can be made to fail.
\<close>

definition demo_files :: "nat fs" where
  "demo_files = (\<lambda>p. None)(PublicDir := Some 1)"

definition demo_world :: "nat world" where
  "demo_world = \<lparr>files = demo_files, trace = [], console = []\<rparr>"

definition demo_env :: "bool \<Rightarrow> string option \<Rightarrow> string option \<Rightarrow> nat env" where
  "demo_env build_ok swap_fault rollback_fault =
     \<lparr>production = True,
      vite_build = (\<lambda>f. if build_ok then (None, f(TempPublicDir := Some 2)) else (Some ''exit 1'', f)),
      prerender = (\<lambda>f. (None, f)),
      rm_fault = (\<lambda>p. None),
      rename_fault = (\<lambda>s d. if s = TempPublicDir \<and> d = PublicDir then swap_fault
                              else if s = OldPublicDir \<and> d = PublicDir then rollback_fault
                              else None)\<rparr>"

definition idle :: rebuild_state where
  "idle = \<lparr>isRebuilding = False, lastRebuildTime = 0\<rparr>"

text \<open>
  The build as the repository sets it up: the frontend is compiled to \<open>dist/public\<close>
  (replit.md, "Build Output"), the pre-render script writes its pages under
  \<open>dist/public\<close>, and neither creates \<open>dist/public.new\<close>. The live tree is version 1
  before, 2 once the frontend is compiled, 3 with the pages; \<open>prerender_exit\<close> is the
  error of the second command, if it fails.
\<close>

definition in_place_env :: "string option \<Rightarrow> nat env" where
  "in_place_env prerender_exit =
     \<lparr>production = True,
      vite_build = (\<lambda>f. (None, f(PublicDir := Some 2))),
      prerender = (\<lambda>f. case prerender_exit of
                           Some msg \<Rightarrow> (Some msg, f)
                         | None \<Rightarrow> (None, f(PublicDir := Some 3))),
      rm_fault = (\<lambda>p. None),
      rename_fault = (\<lambda>s d. None)\<rparr>"

text \<open>The same process outside production mode.\<close>

definition dev_env :: "nat env" where
  "dev_env = (demo_env True None None)\<lparr>production := False\<rparr>"

text \<open>The three results of the guards of \<open>triggerRebuild\<close>.\<close>

fun is_rejection :: "message \<Rightarrow> bool" where
  "is_rejection AlreadyInProgress = True"
| "is_rejection (PleaseWait n) = True"
| "is_rejection ProductionOnly = True"
| "is_rejection (RebuildFailed err) = False"
| "is_rejection RebuiltSuccessfully = False"

text \<open>
  The value is a string.
\<close>

fun is_string :: "jsval option \<Rightarrow> bool" where
  "is_string (Some (JStr s)) = True"
| "is_string v = False"

text \<open>
  Some user has the role \<open>admin\<close>; every user's e-mail address is a string.
\<close>

definition has_admin :: "doc list \<Rightarrow> bool" where
  "has_admin users = list_ex (\<lambda>u. field u ''role'' = Some admin_role) users"

definition emails_are_strings :: "doc list \<Rightarrow> bool" where
  "emails_are_strings users = list_all (\<lambda>u. is_string (field u ''email'')) users"

text \<open>
  The users collections the system can be in on the embedded backend. It starts on an
  empty collection; from then on the process may start again, an admin may create a user
  or ask for the deletion of any numeric id, and a signed-in user may change the
  password. Each request runs from its first to its last line before the next.
\<close>

inductive reachable :: "doc list \<Rightarrow> bool" where
  first_start:
    "initNeDB_admin sv [] = Inr users \<Longrightarrow> reachable users"
| restart:
    "reachable users \<Longrightarrow> initNeDB_admin sv users = Inr users' \<Longrightarrow> reachable users'"
| admin_creates_user:
    "reachable users \<Longrightarrow> isAdmin (deserializeUser sid users) \<Longrightarrow>
     reachable (snd (post_admin_users True sv email password asAdmin users))"
| admin_deletes_user:
    "reachable users \<Longrightarrow> deserializeUser sid users = Some reqUser \<Longrightarrow>
     isAdmin (Some reqUser) \<Longrightarrow>
     reachable (snd (delete_admin_user True idParam reqUser users))"
| user_changes_password:
    "reachable users \<Longrightarrow> deserializeUser sid users = Some reqUser \<Longrightarrow>
     reachable (snd (patch_auth_password True sv reqUser currentPassword newPassword users))"

text \<open>
  The databases a database can become by starts of the process, failed ones included.
\<close>

inductive restarted :: "database \<Rightarrow> database \<Rightarrow> bool" where
  same: "restarted db db"
| again: "restarted db db1 \<Longrightarrow> restarted db (snd (initNeDB sv sm db1))"

text \<open>
  Sample data: a store that hands out the key \<open>abc\<close>, whose hash is 96354.
\<close>

definition demo_services :: services where
  "demo_services =
     \<lparr>newId = utf16 ''abc'', hashPassword = (\<lambda>p. utf16 ''$2b$10$'' @ p),
      verifyPassword = (\<lambda>p h. h = Some (JStr (utf16 ''$2b$10$'' @ p))),
      schemaValid = (\<lambda>d. True), clock = 1700000000000\<rparr>"

definition demo_admin :: doc where
  "demo_admin =
     \<lparr>native = Some (utf16 ''abc''),
      props = [(''email'', JStr ADMIN_EMAIL),
               (''password'', JStr (utf16 ''$2b$10$admin123'')),
               (''role'', admin_role),
               (''createdAt'', JNum 1700000000000)]\<rparr>"

definition demo_faq_body :: doc where
  "demo_faq_body =
     \<lparr>native = None,
      props = [(''question'', JStr (utf16 ''Do you ship?'')),
               (''answer'', JStr (utf16 ''Yes'')),
               (''category'', JStr (utf16 ''Shipping''))]\<rparr>"

definition demo_faq :: doc where
  "demo_faq = demo_faq_body\<lparr>native := Some (utf16 ''abc'')\<rparr>"

definition demo_faq_patch :: doc where
  "demo_faq_patch = \<lparr>native = None, props = [(''answer'', JStr (utf16 ''No''))]\<rparr>"

text \<open>
  A FAQ body that brings an \<open>id\<close> of its own, and one with a property \<open>toObject\<close>.
\<close>

definition own_id_faq_body :: doc where
  "own_id_faq_body =
     \<lparr>native = None,
      props = [(''question'', JStr (utf16 ''Do you ship?'')),
               (''answer'', JStr (utf16 ''Yes'')),
               (''category'', JStr (utf16 ''Shipping'')),
               (''id'', JStr (utf16 ''x''))]\<rparr>"

definition own_id_faq :: doc where
  "own_id_faq = own_id_faq_body\<lparr>native := Some (utf16 ''abc'')\<rparr>"

definition toObject_faq_body :: doc where
  "toObject_faq_body =
     \<lparr>native = None,
      props = [(''question'', JStr (utf16 ''Do you ship?'')),
               (''answer'', JStr (utf16 ''Yes'')),
               (''category'', JStr (utf16 ''Shipping'')),
               (''toObject'', JNum 1)]\<rparr>"

definition toObject_faq :: doc where
  "toObject_faq = toObject_faq_body\<lparr>native := Some (utf16 ''abc'')\<rparr>"

text \<open>
  A second admin, created through \<open>POST /api/admin/users\<close> when the store hands out the
  key \<open>abd\<close>, whose hash is 96355.
\<close>

definition second_services :: services where
  "second_services = demo_services\<lparr>newId := utf16 ''abd''\<rparr>"

definition second_admin :: doc where
  "second_admin =
     \<lparr>native = Some (utf16 ''abd''),
      props = [(''email'', JStr (utf16 ''bea@quillyourdream.com'')),
               (''password'', JStr (utf16 ''$2b$10$secret'')),
               (''role'', admin_role)]\<rparr>"

definition demo_artist_body :: doc where
  "demo_artist_body = \<lparr>native = None, props = [(''name'', JStr (utf16 ''Ann''))]\<rparr>"

definition demo_artist :: doc where
  "demo_artist = demo_artist_body\<lparr>native := Some (utf16 ''abc'')\<rparr>"

definition demo_artist_patch :: doc where
  "demo_artist_patch = \<lparr>native = None, props = [(''name'', JStr (utf16 ''Bea''))]\<rparr>"

definition demo_artwork_body :: doc where
  "demo_artwork_body =
     \<lparr>native = None,
      props = [(''title'', JStr (utf16 ''Sunrise'')),
               (''slug'', JStr (utf16 ''sunrise'')),
               (''featured'', JBool False)]\<rparr>"

definition demo_artwork :: doc where
  "demo_artwork =
     \<lparr>native = Some (utf16 ''abc''),
      props = [(''title'', JStr (utf16 ''Sunrise'')),
               (''slug'', JStr (utf16 ''sunrise'')),
               (''featured'', JBool False),
               (''id'', JNum 96354)]\<rparr>"

definition demo_artwork_patch :: doc where
  "demo_artwork_patch = \<lparr>native = None, props = [(''featured'', JBool True)]\<rparr>"

definition demo_artwork_patched :: doc where
  "demo_artwork_patched =
     \<lparr>native = Some (utf16 ''abc''),
      props = [(''title'', JStr (utf16 ''Sunrise'')),
               (''slug'', JStr (utf16 ''sunrise'')),
               (''featured'', JBool True),
               (''id'', JNum 96354)]\<rparr>"

text \<open>Sample files with one FAQ and no artwork, and a database with nothing in it.\<close>

definition demo_samples :: samples where
  "demo_samples =
     \<lparr>artworksData = [],
      artistData = (utf16 ''k1'', demo_artist_body),
      faqsData = [(utf16 ''k2'', demo_faq_patch)],
      settingsKey = utf16 ''k3''\<rparr>"

definition empty_database :: database where
  "empty_database = (\<lambda>c. [])"



section \<open>Properties of the identity hash\<close>

text \<open>
  The accumulator stays a 32-bit integer through the loop.
\<close>

lemma toInt32_range: "- (2 ^ 31) \<le> toInt32 x \<and> toInt32 x < 2 ^ 31"
proof -
  have "0 \<le> (x + 2 ^ 31) mod 2 ^ 32" "(x + 2 ^ 31) mod 2 ^ 32 < (2 ^ 32 :: int)"
    by simp_all
  then show ?thesis
    unfolding toInt32_def by simp
qed

lemma hash_loop_range:
  "- (2 ^ 31) \<le> h \<and> h < 2 ^ 31 \<Longrightarrow> - (2 ^ 31) \<le> hash_loop h cs \<and> hash_loop h cs < 2 ^ 31"
proof (induction cs arbitrary: h)
  case Nil
  then show ?case by simp
next
  case (Cons c cs)
  show ?case
    unfolding hash_loop.simps by (rule Cons.IH) (rule toInt32_range)
qed

text \<open>
  Zero is the hash of non-empty strings too, and the largest value, \<open>2^31\<close>, is a hash.
\<close>

lemma hash_zero_nonempty: "hashStringToNumber (utf16 ''f5a5a608'') = 0"
  by (simp add: hashStringToNumber_def utf16_def toInt32_def shl5_def)

lemma hash_attains_bound: "hashStringToNumber (utf16 ''polygenelubricants'') = 2 ^ 31"
  by (simp add: hashStringToNumber_def utf16_def toInt32_def shl5_def)

text \<open>
  Claim C6, as the code has it. For every string the identity hash is a non-negative
  integer, at most \<open>2^31\<close>. It is not always positive (the counterexample below), and the
  bound itself is reached (\<open>hash_attains_bound\<close>): \<open>Math.abs\<close> of the smallest 32-bit integer
  is \<open>2^31\<close>.
\<close>

theorem hashStringToNumber_range:
  "0 \<le> hashStringToNumber str \<and> hashStringToNumber str \<le> 2 ^ 31"
proof -
  have "- (2 ^ 31) \<le> hash_loop 0 str \<and> hash_loop 0 str < 2 ^ 31"
    by (rule hash_loop_range) simp
  then show ?thesis
    unfolding hashStringToNumber_def by linarith
qed

theorem hashStringToNumber_range_witness:
  "0 \<le> hashStringToNumber (utf16 ''abc'') \<and> hashStringToNumber (utf16 ''abc'') \<le> 2 ^ 31"
  using hashStringToNumber_range [of "utf16 ''abc''"] by simp

text \<open>
  Claim C6 as stated fails: the hash of the empty string is 0, which is not positive. The
  loop does not run and \<open>Math.abs(0)\<close> is returned.
\<close>

theorem hashStringToNumber_not_positive: "\<not> 0 < hashStringToNumber []"
  by (simp add: hashStringToNumber_def)


section \<open>Properties of the rebuild orchestrator\<close>

lemmas fs_defs = exec_def access_def rm_def rename_def emit_def console_log_def

lemma run_build_files:
  "files (snd (run_build e w)) = toolchain e (files w)"
  by (simp add: run_build_def toolchain_def fs_defs split: prod.splits option.splits bool.splits)

lemma run_build_trace:
  "filter is_fs_mutation (trace (snd (run_build e w))) = filter is_fs_mutation (trace w)"
  by (simp add: run_build_def fs_defs split: prod.splits option.splits bool.splits)

lemma run_build_fails:
  "build_fails e (files w) \<Longrightarrow>
     \<exists>err. fst (run_build e w) = Some err \<and> (err = NewBuildMissing \<or> (\<exists>m. err = CommandFailed m))"
  by (auto simp add: run_build_def build_fails_def fs_defs split: prod.splits option.splits bool.splits)





lemma cooldown_remaining_pos: "t1 - t0 < REBUILD_COOLDOWN \<Longrightarrow> 1 \<le> cooldown_remaining t1 t0"
  unfolding cooldown_remaining_def REBUILD_COOLDOWN_def by linarith

lemma demo_enter:
  "triggerRebuild_enter (demo_env b s r) 20000 idle = Inr \<lparr>isRebuilding = True, lastRebuildTime = 20000\<rparr>"
  by (simp add: triggerRebuild_enter_def demo_env_def idle_def REBUILD_COOLDOWN_def)


lemma demo_failed_attempt:
  "triggerRebuild (demo_env False None None) 20000 idle demo_world =
     (\<lparr>success = False, message = RebuildFailed (CommandFailed ''exit 1'')\<rparr>,
      \<lparr>isRebuilding = False, lastRebuildTime = 20000\<rparr>,
      \<lparr>files = demo_files, trace = [Exec ''vite build''],
       console = [LogStarting, LogBuildingClient, LogRebuildFailed (CommandFailed ''exit 1'')]\<rparr>)"
  unfolding triggerRebuild_def demo_enter
  by (simp add: triggerRebuild_run_def rebuild_body_def run_build_def
      demo_env_def demo_world_def fs_defs)



text \<open>
  What holds on the build-failure path. A rebuild that passed the guards and whose build
  phase fails (a build command exits with an error, or \<open>dist/public.new\<close> is missing
  afterwards) returns a failure, with \<open>isRebuilding\<close> false again, and the orchestrator
  itself issues no rename, no removal and no timer: the file system is left exactly as
  the two commands left it. The live directory is therefore unchanged if, and only if, the
  commands themselves left it unchanged.
\<close>

lemma build_failure_frame:
  assumes "triggerRebuild_enter e now st = Inr st1"
      and "build_fails e (files w)"
  shows "\<exists>err w'. triggerRebuild e now st w =
            (\<lparr>success = False, message = RebuildFailed err\<rparr>, st1\<lparr>isRebuilding := False\<rparr>, w')
          \<and> (err = NewBuildMissing \<or> (\<exists>m. err = CommandFailed m))
          \<and> filter is_fs_mutation (trace w') = filter is_fs_mutation (trace w)
          \<and> files w' = toolchain e (files w)"
proof -
  obtain r w1 where rb: "run_build e w = (r, w1)" by (cases "run_build e w")
  from run_build_fails [OF assms(2)] rb obtain err where
    err: "r = Some err" "err = NewBuildMissing \<or> (\<exists>m. err = CommandFailed m)" by auto
  have f: "files w1 = toolchain e (files w)" using run_build_files [of e w] rb by simp
  have t: "filter is_fs_mutation (trace w1) = filter is_fs_mutation (trace w)"
    using run_build_trace [of e w] rb by simp
  have "triggerRebuild e now st w =
      (\<lparr>success = False, message = RebuildFailed err\<rparr>, st1\<lparr>isRebuilding := False\<rparr>,
       console_log (LogRebuildFailed err) w1)"
    using assms(1) rb err(1)
    by (simp add: triggerRebuild_def triggerRebuild_run_def rebuild_body_def)
  moreover have "files (console_log (LogRebuildFailed err) w1) = toolchain e (files w)"
    using f by (simp add: console_log_def)
  moreover have "filter is_fs_mutation (trace (console_log (LogRebuildFailed err) w1))
      = filter is_fs_mutation (trace w)"
    using t by (simp add: console_log_def)
  ultimately show ?thesis
    using err(2) by auto
qed

lemma in_place_enter:
  "triggerRebuild_enter (in_place_env x) 20000 idle = Inr \<lparr>isRebuilding = True, lastRebuildTime = 20000\<rparr>"
  by (simp add: triggerRebuild_enter_def in_place_env_def idle_def REBUILD_COOLDOWN_def)

text \<open>
  Claim C3, at the input where the code departs from it. \<open>triggerRebuild\<close> runs
  \<open>vite build\<close> and the pre-render script with no option that names an output directory,
  so they write where the repository's configuration sends them: into \<open>dist/public\<close>,
  the live directory. The step is commented "Build client to temporary directory" and is
  followed by the check that \<open>dist/public.new\<close> exists, but nothing directs the build
  there. With the live tree at version 1:
  \<^item> when the second command fails, the rebuild reports "Rebuild failed" and returns to
    idle, and the live directory holds version 2, the half-built site;
  \<^item> when both commands succeed, \<open>dist/public.new\<close> is missing, the rebuild reports
    "New build directory not found", and the live directory holds version 3.
  In both runs the build phase fails and the live directory is not what it was.
\<close>

theorem build_failure_overwrites_live:
  "triggerRebuild (in_place_env (Some ''exit 1'')) 20000 idle demo_world =
     (\<lparr>success = False, message = RebuildFailed (CommandFailed ''exit 1'')\<rparr>,
      \<lparr>isRebuilding = False, lastRebuildTime = 20000\<rparr>,
      \<lparr>files = demo_files(PublicDir := Some 2),
       trace = [Exec ''vite build'', Exec ''tsx scripts/prerender-ssr.tsx''],
       console = [LogStarting, LogBuildingClient, LogPrerendering,
                  LogRebuildFailed (CommandFailed ''exit 1'')]\<rparr>)
   \<and> triggerRebuild (in_place_env None) 20000 idle demo_world =
     (\<lparr>success = False, message = RebuildFailed NewBuildMissing\<rparr>,
      \<lparr>isRebuilding = False, lastRebuildTime = 20000\<rparr>,
      \<lparr>files = demo_files(PublicDir := Some 3),
       trace = [Exec ''vite build'', Exec ''tsx scripts/prerender-ssr.tsx'', Access TempPublicDir],
       console = [LogStarting, LogBuildingClient, LogPrerendering, LogSwapping,
                  LogRebuildFailed NewBuildMissing]\<rparr>)"
proof
  show "triggerRebuild (in_place_env (Some ''exit 1'')) 20000 idle demo_world =
     (\<lparr>success = False, message = RebuildFailed (CommandFailed ''exit 1'')\<rparr>,
      \<lparr>isRebuilding = False, lastRebuildTime = 20000\<rparr>,
      \<lparr>files = demo_files(PublicDir := Some 2),
       trace = [Exec ''vite build'', Exec ''tsx scripts/prerender-ssr.tsx''],
       console = [LogStarting, LogBuildingClient, LogPrerendering,
                  LogRebuildFailed (CommandFailed ''exit 1'')]\<rparr>)"
    unfolding triggerRebuild_def in_place_enter
    by (simp add: triggerRebuild_run_def rebuild_body_def run_build_def
        in_place_env_def demo_world_def fs_defs)
  show "triggerRebuild (in_place_env None) 20000 idle demo_world =
     (\<lparr>success = False, message = RebuildFailed NewBuildMissing\<rparr>,
      \<lparr>isRebuilding = False, lastRebuildTime = 20000\<rparr>,
      \<lparr>files = demo_files(PublicDir := Some 3),
       trace = [Exec ''vite build'', Exec ''tsx scripts/prerender-ssr.tsx'', Access TempPublicDir],
       console = [LogStarting, LogBuildingClient, LogPrerendering, LogSwapping,
                  LogRebuildFailed NewBuildMissing]\<rparr>)"
    unfolding triggerRebuild_def in_place_enter
    by (simp add: triggerRebuild_run_def rebuild_body_def run_build_def
        in_place_env_def demo_world_def demo_files_def fs_defs)
qed

text \<open>
  The live directory before and after the first of the two runs, which is a run whose
  build phase fails.
\<close>

theorem build_failure_overwrites_live_witness:
  "build_fails (in_place_env (Some ''exit 1'')) (files demo_world)
   \<and> files demo_world PublicDir = Some 1
   \<and> files (snd (snd (triggerRebuild (in_place_env (Some ''exit 1'')) 20000 idle demo_world)))
        PublicDir = Some 2"
proof -
  have "build_fails (in_place_env (Some ''exit 1'')) (files demo_world)"
    by (simp add: build_fails_def in_place_env_def)
  moreover have "files demo_world PublicDir = Some 1"
    by (simp add: demo_world_def demo_files_def)
  ultimately show ?thesis
    using build_failure_overwrites_live by simp
qed

text \<open>
  Claim C4. Once a first trigger has passed the guards (it has set \<open>isRebuilding\<close> and is
  suspended somewhere in the build), a second trigger, at any time and in any environment,
  is turned away in its synchronous part with \<open>success = false\<close> and the "already in
  progress" message, and leaves the state, the file system and the trace of calls as they
  were: it runs no command and touches no directory.
\<close>

theorem rebuild_mutual_exclusion:
  assumes "triggerRebuild_enter e1 t1 st = Inr st1"
  shows "isRebuilding st1
       \<and> triggerRebuild_enter e2 t2 st1 = Inl \<lparr>success = False, message = AlreadyInProgress\<rparr>
       \<and> triggerRebuild e2 t2 st1 w = (\<lparr>success = False, message = AlreadyInProgress\<rparr>, st1, w)"
  using assms
  by (auto simp add: triggerRebuild_def triggerRebuild_enter_def split: if_splits)

text \<open>A second trigger one millisecond after the first.\<close>

theorem rebuild_mutual_exclusion_witness:
  "isRebuilding \<lparr>isRebuilding = True, lastRebuildTime = 20000\<rparr>
   \<and> triggerRebuild (demo_env True None None) 20001 \<lparr>isRebuilding = True, lastRebuildTime = 20000\<rparr> demo_world
       = (\<lparr>success = False, message = AlreadyInProgress\<rparr>,
          \<lparr>isRebuilding = True, lastRebuildTime = 20000\<rparr>, demo_world)"
  using rebuild_mutual_exclusion [OF demo_enter [of True None None],
      where ?e2.0 = "demo_env True None None" and ?t2.0 = 20001 and w = demo_world]
  by simp

text \<open>
  Claim C5. Let an attempt pass the guards at time \<open>t0\<close> and run to its end, with any
  result. Then \<open>lastRebuildTime\<close> is \<open>t0\<close> and \<open>isRebuilding\<close> is false, and a trigger at a
  time \<open>t1\<close> with \<open>t1 - t0 < 10000\<close> is turned away with the cooldown message; the number of
  seconds in it is not negative; state, file system and trace are unchanged.
\<close>

theorem rebuild_cooldown:
  assumes "triggerRebuild_enter e0 t0 st0 = Inr sb"
      and "triggerRebuild e0 t0 st0 w0 = (r0, st1, w1)"
      and "t1 - t0 < REBUILD_COOLDOWN"
  shows "lastRebuildTime st1 = t0 \<and> \<not> isRebuilding st1
       \<and> triggerRebuild e1 t1 st1 w1 =
           (\<lparr>success = False, message = PleaseWait (cooldown_remaining t1 t0)\<rparr>, st1, w1)
       \<and> 0 \<le> cooldown_remaining t1 t0"
proof -
  have st1: "st1 = sb\<lparr>isRebuilding := False\<rparr>"
    using assms(1,2)
    by (auto simp add: triggerRebuild_def triggerRebuild_run_def split: prod.splits option.splits)
  have sb: "sb = st0\<lparr>isRebuilding := True, lastRebuildTime := t0\<rparr>"
    using assms(1) by (auto simp add: triggerRebuild_enter_def split: if_splits)
  have "0 \<le> cooldown_remaining t1 t0"
    using cooldown_remaining_pos [OF assms(3)] by simp
  then show ?thesis
    using assms(3) by (simp add: st1 sb triggerRebuild_def triggerRebuild_enter_def)
qed

text \<open>A failed attempt at 20000 ms, a trigger at 23500 ms: seven seconds to wait.\<close>

theorem rebuild_cooldown_witness:
  "fst (triggerRebuild (demo_env True None None) 23500
          \<lparr>isRebuilding = False, lastRebuildTime = 20000\<rparr>
          \<lparr>files = demo_files, trace = [Exec ''vite build''],
           console = [LogStarting, LogBuildingClient, LogRebuildFailed (CommandFailed ''exit 1'')]\<rparr>)
     = \<lparr>success = False, message = PleaseWait 7\<rparr>"
proof -
  have "(23500::int) - 20000 < REBUILD_COOLDOWN" by (simp add: REBUILD_COOLDOWN_def)
  from rebuild_cooldown [OF demo_enter [of False None None] demo_failed_attempt this,
      where ?e1.0 = "demo_env True None None"]
  show ?thesis by (simp add: cooldown_remaining_def REBUILD_COOLDOWN_def)
qed

lemma triggerRebuild_cases:
  assumes "triggerRebuild e now st w = (result, st', w')"
  shows "(is_rejection (message result) \<and> \<not> success result \<and> st' = st \<and> w' = w)
       \<or> (result = \<lparr>success = True, message = RebuiltSuccessfully\<rparr>)
       \<or> (\<exists>err w1. result = \<lparr>success = False, message = RebuildFailed err\<rparr>
             \<and> w' = console_log (LogRebuildFailed err) w1)"
proof (cases "triggerRebuild_enter e now st")
  case (Inl rejected)
  then have "is_rejection (message rejected) \<and> \<not> success rejected"
    by (auto simp add: triggerRebuild_enter_def split: if_splits)
  with Inl assms show ?thesis by (simp add: triggerRebuild_def)
next
  case (Inr st1)
  obtain r w1 where rb: "rebuild_body e w = (r, w1)" by (cases "rebuild_body e w")
  show ?thesis
  proof (cases r)
    case None
    with Inr rb assms show ?thesis
      by (auto simp add: triggerRebuild_def triggerRebuild_run_def)
  next
    case (Some err)
    with Inr rb assms show ?thesis
      by (auto simp add: triggerRebuild_def triggerRebuild_run_def)
  qed
qed

text \<open>
  Claim C10, as amended. Whatever \<open>triggerRebuild\<close> returns, in every state, at every
  time and in every environment, the handler of \<open>POST /api/admin/rebuild\<close> answers 200
  with \<open>success = true\<close> and "Rebuild started", and leaves state and file system as
  \<open>triggerRebuild\<close> left them. Of the reason in the dropped result:
  \<^item> a failure of the rebuild itself is the last line written to the server log
    (\<open>console.error("Rebuild failed:", error)\<close>);
  \<^item> a rejection by one of the three guards is written nowhere: no line is logged and the
    module state is untouched, so the status endpoint, whose answer has the fields
    \<open>isRebuilding\<close>, \<open>lastRebuildTime\<close> and \<open>canRebuild\<close> and none for a reason, answers
    after the request what it would have answered without it.
\<close>

theorem rebuild_endpoint_discards_result:
  assumes "triggerRebuild e now st w = (result, st', w')"
  shows "post_admin_rebuild e now st w =
           (\<lparr>http_status = 200, body_success = True, body_message = ''Rebuild started''\<rparr>, st', w')
       \<and> (\<forall>err. message result = RebuildFailed err \<longrightarrow>
             \<not> success result \<and> console w' \<noteq> [] \<and> last (console w') = LogRebuildFailed err)
       \<and> (is_rejection (message result) \<longrightarrow>
             \<not> success result \<and> st' = st \<and> console w' = console w \<and> w' = w
             \<and> (\<forall>t. getRebuildStatus t st' = getRebuildStatus t st))"
proof (intro conjI allI impI)
  show "post_admin_rebuild e now st w =
      (\<lparr>http_status = 200, body_success = True, body_message = ''Rebuild started''\<rparr>, st', w')"
    using assms by (simp add: post_admin_rebuild_def)
next
  fix err assume m: "message result = RebuildFailed err"
  from triggerRebuild_cases [OF assms] m
  obtain w1 where "result = \<lparr>success = False, message = RebuildFailed err\<rparr>"
      "w' = console_log (LogRebuildFailed err) w1"
    by auto
  then show "\<not> success result" "console w' \<noteq> []" "last (console w') = LogRebuildFailed err"
    by (simp_all add: console_log_def)
next
  assume "is_rejection (message result)"
  with triggerRebuild_cases [OF assms]
  have r: "\<not> success result \<and> st' = st \<and> w' = w" by auto
  then show "\<not> success result" "st' = st" "console w' = console w" "w' = w"
    "getRebuildStatus t st' = getRebuildStatus t st" for t
    by simp_all
qed

text \<open>A failed rebuild, answered with "Rebuild started"; its reason is in the log.\<close>

theorem rebuild_endpoint_discards_result_witness:
  "fst (post_admin_rebuild (demo_env False None None) 20000 idle demo_world) =
      \<lparr>http_status = 200, body_success = True, body_message = ''Rebuild started''\<rparr>
   \<and> fst (triggerRebuild (demo_env False None None) 20000 idle demo_world) =
      \<lparr>success = False, message = RebuildFailed (CommandFailed ''exit 1'')\<rparr>
   \<and> last (console (snd (snd (post_admin_rebuild (demo_env False None None) 20000 idle demo_world))))
       = LogRebuildFailed (CommandFailed ''exit 1'')"
  using rebuild_endpoint_discards_result [OF demo_failed_attempt]
  by (simp add: demo_failed_attempt)

lemma dev_rejected:
  "triggerRebuild dev_env 20000 idle demo_world =
     (\<lparr>success = False, message = ProductionOnly\<rparr>, idle, demo_world)"
  by (simp add: triggerRebuild_def triggerRebuild_enter_def dev_env_def demo_env_def idle_def
      REBUILD_COOLDOWN_def)

text \<open>
  Claim C10 as it was stated, refuted: it has the reason of a rejection surfaced by the
  status endpoint and the server logs. Outside production mode a trigger is rejected with
  "Rebuilds only run in production mode"; the endpoint answers "Rebuild started"; not one
  line is logged; and the status endpoint answers, at the time of the request and ten
  seconds later, that no rebuild is running and that one can be started.
\<close>

theorem rejection_reason_surfaced_nowhere:
  "fst (triggerRebuild dev_env 20000 idle demo_world) = \<lparr>success = False, message = ProductionOnly\<rparr>
   \<and> fst (post_admin_rebuild dev_env 20000 idle demo_world) =
       \<lparr>http_status = 200, body_success = True, body_message = ''Rebuild started''\<rparr>
   \<and> console (snd (snd (post_admin_rebuild dev_env 20000 idle demo_world))) = []
   \<and> getRebuildStatus 20000 (fst (snd (post_admin_rebuild dev_env 20000 idle demo_world))) =
       \<lparr>status_isRebuilding = False, status_lastRebuildTime = None, status_canRebuild = True\<rparr>
   \<and> getRebuildStatus 30000 (fst (snd (post_admin_rebuild dev_env 20000 idle demo_world))) =
       \<lparr>status_isRebuilding = False, status_lastRebuildTime = None, status_canRebuild = True\<rparr>"
proof -
  have p: "post_admin_rebuild dev_env 20000 idle demo_world =
      (\<lparr>http_status = 200, body_success = True, body_message = ''Rebuild started''\<rparr>,
       idle, demo_world)"
    by (simp add: post_admin_rebuild_def dev_rejected)
  show ?thesis
    unfolding p dev_rejected
    by (simp add: getRebuildStatus_def idle_def REBUILD_COOLDOWN_def demo_world_def)
qed


section \<open>Properties of the store and the routes\<close>

lemma map_of_set_prop: "map_of (set_prop k v ps) = (map_of ps)(k \<mapsto> v)"
  by (induction ps) (auto simp add: fun_eq_iff)

lemma field_set_field_other: "k' \<noteq> k \<Longrightarrow> field (set_field k v d) k' = field d k'"
  by (simp add: field_def set_field_def map_of_set_prop)

lemma map_of_filter_other:
  "k' \<noteq> k \<Longrightarrow> map_of (filter (\<lambda>(x, v). x \<noteq> k) ps) k' = map_of ps k'"
  by (induction ps) auto

lemma field_without_other: "k' \<noteq> k \<Longrightarrow> field (without k d) k' = field d k'"
  by (simp add: field_def without_def map_of_filter_other)

lemma native_without: "native (without k d) = native d"
  by (simp add: without_def)

lemma find_by_hash_Some:
  "find_by_hash t us = Inr (Some x) \<Longrightarrow> x \<in> set us \<and> (\<exists>s. native x = Some s \<and> Some (hashStringToNumber s) = t)"
  by (induction us) (auto split: option.splits if_splits)

lemma matches_id: "matches [(''_id'', JStr s)] d = (native d = Some s)"
  by (cases "native d") (auto simp add: matches_def field_def things_equal_def)

lemma remove_first_keeps: "r \<in> set us \<Longrightarrow> \<not> P r \<Longrightarrow> r \<in> set (snd (remove_first P us))"
  by (induction us) (auto split: prod.splits)

lemma remove_first_subset: "set (snd (remove_first P us)) \<subseteq> set us"
  by (induction us) (auto split: prod.splits)

lemma remove_first_member:
  "remove_first P us = (n, us') \<Longrightarrow> x \<in> set us' \<Longrightarrow> x \<in> set us"
  using remove_first_subset [of P us] by auto

lemma delete_resolved_keeps_others:
  "find_by_hash t us = Inr (Some x) \<Longrightarrow> native x = Some s \<Longrightarrow> r \<in> set us \<Longrightarrow> r \<noteq> x \<Longrightarrow>
   r \<in> set (snd (deleteOne [(''_id'', JStr s)] us))"
proof (induction us)
  case Nil
  then show ?case by simp
next
  case (Cons u us)
  show ?case
  proof (cases "native u")
    case None
    with Cons.prems(1) show ?thesis by simp
  next
    case (Some su)
    show ?thesis
    proof (cases "Some (hashStringToNumber su) = t")
      case True
      with Some Cons.prems have "x = u" "su = s" by auto
      with Some Cons.prems(3,4) show ?thesis
        by (simp add: deleteOne_def matches_id)
    next
      case False
      with Some Cons.prems(1) have rec: "find_by_hash t us = Inr (Some x)" by simp
      from find_by_hash_Some [OF rec] Cons.prems(2) have "Some (hashStringToNumber s) = t" by auto
      with False Some have nomatch: "\<not> matches [(''_id'', JStr s)] u"
        by (auto simp add: matches_id)
      show ?thesis
      proof (cases "r = u")
        case True
        with nomatch show ?thesis
          by (simp add: deleteOne_def split: prod.splits)
      next
        case False
        with Cons.prems(3) have "r \<in> set us" by simp
        from Cons.IH [OF rec Cons.prems(2) this Cons.prems(4)] nomatch show ?thesis
          by (auto simp add: deleteOne_def split: prod.splits)
      qed
    qed
  qed
qed

lemma findOne_Some: "findOne q us = Some r \<Longrightarrow> r \<in> set us \<and> matches q r"
  by (auto simp add: findOne_def find_Some_iff)

lemma has_admin_iff: "has_admin us \<longleftrightarrow> (\<exists>u \<in> set us. field u ''role'' = Some admin_role)"
  by (simp add: has_admin_def list_ex_iff)

lemma is_string_iff: "is_string v \<longleftrightarrow> (\<exists>e. v = Some (JStr e))"
  by (cases v rule: is_string.cases) simp_all

lemma emails_iff:
  "emails_are_strings us \<longleftrightarrow> (\<forall>u \<in> set us. \<exists>e. field u ''email'' = Some (JStr e))"
  by (simp add: emails_are_strings_def list_all_iff is_string_iff)

lemma delete_keeps_requester:
  assumes r: "r \<in> set users" and req: "reqUser = without ''password'' r"
      and em: "emails_are_strings users"
  shows "r \<in> set (snd (delete_admin_user usingNeDB idParam reqUser users))"
proof (cases "parseInt10 idParam")
  case None
  with r show ?thesis by (simp add: delete_admin_user_def)
next
  case (Some targetId)
  show ?thesis
  proof (cases "find_by_hash (Some targetId) users")
    case (Inl err)
    with Some r show ?thesis by (simp add: delete_admin_user_def)
  next
    case (Inr found)
    show ?thesis
    proof (cases found)
      case None
      with Some Inr r show ?thesis by (simp add: delete_admin_user_def)
    next
      case (Some x)
      with Inr have fx: "find_by_hash (Some targetId) users = Inr (Some x)" by simp
      from find_by_hash_Some [OF fx] obtain s where
        x: "x \<in> set users" "native x = Some s" by auto
      from em x(1) obtain ex where ex: "field x ''email'' = Some (JStr ex)"
        by (auto simp add: emails_iff)
      from em r obtain er where er: "field r ''email'' = Some (JStr er)"
        by (auto simp add: emails_iff)
      have ereq: "field reqUser ''email'' = Some (JStr er)"
        using er req by (simp add: field_without_other)
      have nreq: "native reqUser = native r"
        using req by (simp add: native_without)
      show ?thesis
      proof (cases usingNeDB)
        case True
        show ?thesis
        proof (cases "ex = er")
          case True
          with \<open>usingNeDB\<close> \<open>parseInt10 idParam = Some targetId\<close> fx ex ereq r show ?thesis
            by (simp add: delete_admin_user_def)
        next
          case False
          with ex er have "r \<noteq> x" by auto
          from delete_resolved_keeps_others [OF fx x(2) r this]
          show ?thesis
            using \<open>usingNeDB\<close> \<open>parseInt10 idParam = Some targetId\<close> fx ex ereq False x(2)
            by (simp add: delete_admin_user_def field_def)
        qed
      next
        case False
        show ?thesis
        proof (cases "native r")
          case None
          with False \<open>parseInt10 idParam = Some targetId\<close> fx x(2) nreq r show ?thesis
            by (simp add: delete_admin_user_def)
        next
          case (Some rid)
          show ?thesis
          proof (cases "s = rid")
            case True
            with False \<open>parseInt10 idParam = Some targetId\<close> fx x(2) nreq Some r show ?thesis
              by (simp add: delete_admin_user_def)
          next
            case ne: False
            have "\<not> matches [(''_id'', JStr s)] r"
              using Some ne by (auto simp add: matches_id)
            from remove_first_keeps [where P = "matches [(''_id'', JStr s)]", OF r this]
            have "r \<in> set (snd (findByIdAndDelete s users))"
              using r by (auto simp add: findByIdAndDelete_def deleteOne_def split: option.splits prod.splits)
            with False \<open>parseInt10 idParam = Some targetId\<close> fx x(2) nreq Some ne show ?thesis
              by (simp add: delete_admin_user_def)
          qed
        qed
      qed
    qed
  qed
qed

lemma delete_subset:
  "set (snd (delete_admin_user usingNeDB idParam reqUser users)) \<subseteq> set users"
proof -
  have 1: "\<And>q n us'. deleteOne q users = (n, us') \<Longrightarrow> set us' \<subseteq> set users"
    by (auto simp add: deleteOne_def dest: remove_first_member)
  have 2: "\<And>i d us'. findByIdAndDelete i users = (d, us') \<Longrightarrow> set us' \<subseteq> set users"
    using 1 by (auto simp add: findByIdAndDelete_def split: option.splits prod.splits if_splits)
  have 3: "\<And>q x. x \<in> set (snd (deleteOne q users)) \<Longrightarrow> x \<in> set users"
    using 1 by (metis prod.collapse subsetD)
  have 4: "\<And>i x. x \<in> set (snd (findByIdAndDelete i users)) \<Longrightarrow> x \<in> set users"
    using 2 by (metis prod.collapse subsetD)
  show ?thesis
    using 3 4
    by (auto simp add: delete_admin_user_def split: option.splits sum.splits prod.splits)
qed

lemma create_result:
  "create fresh d coll = Inr (nd, coll') \<Longrightarrow> coll' = coll @ [nd] \<and> props nd = props d"
  by (auto simp add: create_def Let_def split: if_splits option.splits)

lemma model_create_result:
  "model_create b sv d coll = Inr (nd, coll') \<Longrightarrow> coll' = coll @ [nd] \<and> props nd = props d"
  by (auto simp add: model_create_def dest: create_result split: if_splits)

lemma field_props: "k \<noteq> ''_id'' \<Longrightarrow> field d k = map_of (props d) k"
  by (simp add: field_def)

lemma has_admin_append: "has_admin (us @ [d]) \<longleftrightarrow> has_admin us \<or> field d ''role'' = Some admin_role"
  by (auto simp add: has_admin_def)

lemma emails_append:
  "emails_are_strings (us @ [d]) \<longleftrightarrow> emails_are_strings us \<and> is_string (field d ''email'')"
  by (simp add: emails_are_strings_def)

lemma initNeDB_admin_result:
  "initNeDB_admin sv users = Inr users' \<Longrightarrow>
   (users' = users \<and> findOne [(''email'', JStr ADMIN_EMAIL)] users \<noteq> None) \<or>
   (\<exists>d. users' = users @ [d]
      \<and> field d ''email'' = Some (JStr ADMIN_EMAIL) \<and> field d ''role'' = Some admin_role)"
  by (auto simp add: initNeDB_admin_def field_props dest!: create_result
      split: if_splits sum.splits)

lemma initNeDB_admin_keeps_invariant:
  assumes "initNeDB_admin sv users = Inr users'"
      and "emails_are_strings users"
      and "has_admin users \<or> users = []"
  shows "emails_are_strings users' \<and> has_admin users'"
  using initNeDB_admin_result [OF assms(1)] assms(2,3)
  by (auto simp add: has_admin_iff emails_iff findOne_def)

lemma post_admin_users_keeps_invariant:
  assumes "emails_are_strings users" and "has_admin users"
  shows "emails_are_strings (snd (post_admin_users b sv email password asAdmin users))
       \<and> has_admin (snd (post_admin_users b sv email password asAdmin users))"
proof (cases "model_create b sv
                \<lparr>native = None,
                   props = [(''email'', JStr email),
                            (''password'', JStr (hashPassword sv password)),
                            (''role'', if asAdmin then admin_role else user_role)]\<rparr> users")
  case (Inl err)
  with assms show ?thesis by (simp add: post_admin_users_def)
next
  case (Inr r)
  obtain d us1 where r: "r = (d, us1)" by (cases r)
  from model_create_result [OF Inr [unfolded r]]
  have "us1 = users @ [d]" "field d ''email'' = Some (JStr email)"
    by (simp_all add: field_props)
  with Inr r assms show ?thesis
    by (simp add: post_admin_users_def has_admin_append emails_append split: sum.splits)
qed

lemma modify_first_map:
  "modify_first P f us = Inr (n, us') \<Longrightarrow> (\<And>d d'. f d = Inr d' \<Longrightarrow> g d' = g d) \<Longrightarrow>
   map g us' = map g us"
proof (induction us arbitrary: n us')
  case Nil
  then show ?case by simp
next
  case (Cons u us)
  show ?case
  proof (cases "P u")
    case True
    with Cons.prems show ?thesis by (auto split: sum.splits)
  next
    case False
    with Cons.prems(1) obtain us1 where "modify_first P f us = Inr (n, us1)" "us' = u # us1"
      by (auto split: sum.splits prod.splits)
    with Cons.IH [OF this(1) Cons.prems(2)] show ?thesis by simp
  qed
qed

lemma has_admin_map: "has_admin us \<longleftrightarrow> Some admin_role \<in> set (map (\<lambda>u. field u ''role'') us)"
  by (force simp add: has_admin_iff)

lemma emails_map:
  "emails_are_strings us \<longleftrightarrow> list_all is_string (map (\<lambda>u. field u ''email'') us)"
  by (simp add: emails_are_strings_def list_all_iff)

lemma patch_auth_password_keeps_invariant:
  assumes "emails_are_strings users" and "has_admin users"
  shows "emails_are_strings (snd (patch_auth_password b sv reqUser cur new users))
       \<and> has_admin (snd (patch_auth_password b sv reqUser cur new users))"
proof -
  {
    fix q n us'
    assume u: "updateOne_set q ''password'' (JStr (hashPassword sv new)) users = Inr (n, us')"
    have "map (\<lambda>u. field u ''role'') us' = map (\<lambda>u. field u ''role'') users"
      by (rule modify_first_map [OF u [unfolded updateOne_set_def]])
         (auto simp add: field_set_field_other split: if_splits)
    moreover have "map (\<lambda>u. field u ''email'') us' = map (\<lambda>u. field u ''email'') users"
      by (rule modify_first_map [OF u [unfolded updateOne_set_def]])
         (auto simp add: field_set_field_other split: if_splits)
    ultimately have "emails_are_strings us' \<and> has_admin us'"
      using assms by (simp add: has_admin_map emails_map)
  }
  then show ?thesis
    using assms
    by (auto simp add: patch_auth_password_def split: option.splits sum.splits prod.splits)
qed

lemma strict_eq_string: "strict_eq v (Some (JStr s)) \<Longrightarrow> v = Some (JStr s)"
  by (erule strict_eq.elims) auto

lemma deserializeUser_origin:
  "deserializeUser sid users = Some reqUser \<Longrightarrow>
   \<exists>r \<in> set users. reqUser = without ''password'' r"
  by (auto simp add: deserializeUser_def dest: findOne_Some)

lemma delete_keeps_invariant:
  assumes "emails_are_strings users"
      and "deserializeUser sid users = Some reqUser" and "isAdmin (Some reqUser)"
  shows "emails_are_strings (snd (delete_admin_user b idParam reqUser users))
       \<and> has_admin (snd (delete_admin_user b idParam reqUser users))"
proof -
  from deserializeUser_origin [OF assms(2)] obtain r where
    r: "r \<in> set users" "reqUser = without ''password'' r" by blast
  have "strict_eq (field reqUser ''role'') (Some admin_role)"
    using assms(3) by (simp add: isAdmin_def)
  then have "field reqUser ''role'' = Some admin_role"
    unfolding admin_role_def by (rule strict_eq_string)
  then have role: "field r ''role'' = Some admin_role"
    using r(2) by (simp add: field_without_other)
  have "r \<in> set (snd (delete_admin_user b idParam reqUser users))"
    by (rule delete_keeps_requester [OF r assms(1)])
  with role have "has_admin (snd (delete_admin_user b idParam reqUser users))"
    by (auto simp add: has_admin_iff)
  moreover have "emails_are_strings (snd (delete_admin_user b idParam reqUser users))"
    using assms(1) delete_subset [of b idParam reqUser users]
    by (auto simp add: emails_iff)
  ultimately show ?thesis by simp
qed

lemma reachable_invariant:
  "reachable users \<Longrightarrow> emails_are_strings users \<and> has_admin users"
proof (induction rule: reachable.induct)
  case (first_start sv users)
  show ?case
    by (rule initNeDB_admin_keeps_invariant [OF first_start])
       (simp_all add: emails_are_strings_def)
next
  case (restart users sv users')
  show ?case
    by (rule initNeDB_admin_keeps_invariant [OF restart(2)]) (simp_all add: restart.IH)
next
  case (admin_creates_user users sid sv email password asAdmin)
  then show ?case by (simp add: post_admin_users_keeps_invariant)
next
  case (admin_deletes_user users sid reqUser idParam)
  then show ?case by (simp add: delete_keeps_invariant)
next
  case (user_changes_password users sid reqUser sv currentPassword newPassword)
  then show ?case by (simp add: patch_auth_password_keeps_invariant)
qed

lemma self_delete_rejected:
  assumes "parseInt10 idParam = Some targetId"
      and "find_by_hash (Some targetId) users = Inr (Some targetUser)"
      and "is_string (field targetUser ''email'')"
  shows "delete_admin_user b idParam (without ''password'' targetUser) users =
           (\<lparr>status = 400, payload = ErrorMsg ''Cannot delete your own account''\<rparr>, users)"
proof -
  from find_by_hash_Some [OF assms(2)] obtain s where s: "native targetUser = Some s" by auto
  from assms(3) obtain e where e: "field targetUser ''email'' = Some (JStr e)"
    by (auto simp add: is_string_iff)
  show ?thesis
    using assms(1,2) s e
    by (simp add: delete_admin_user_def field_without_other native_without)
qed

text \<open>
  Claim C9, as amended. (1) On either backend, a delete request whose numeric id resolves
  (first document whose \<open>_id\<close> hashes to it) to the record of the user making the
  request is answered 400 "Cannot delete your own account" and the collection is
  unchanged. The test is made on the resolved record, not on the number. (2) On the
  embedded backend, whose start writes the default admin, every users collection that is
  reachable by requests handled one at a time, each authenticated against the collection
  its handler works on, has a user with the role \<open>admin\<close>.
\<close>

theorem self_delete_prevention:
  "(\<forall>b idParam targetId users targetUser.
      parseInt10 idParam = Some targetId \<and>
      find_by_hash (Some targetId) users = Inr (Some targetUser) \<and>
      is_string (field targetUser ''email'') \<longrightarrow>
      delete_admin_user b idParam (without ''password'' targetUser) users =
        (\<lparr>status = 400, payload = ErrorMsg ''Cannot delete your own account''\<rparr>, users))
   \<and> (\<forall>users. reachable users \<longrightarrow> has_admin users)"
  using self_delete_rejected reachable_invariant by blast

lemma demo_startup: "initNeDB_admin demo_services [] = Inr [demo_admin]"
  by (simp add: initNeDB_admin_def findOne_def create_def
      checkObject_def valid_key_def demo_services_def demo_admin_def admin_role_def
      ADMIN_EMAIL_def utf16_def matches_def field_def things_equal_def Let_def)

text \<open>
  The default admin, alone in the collection, asks for the deletion of its own id.
\<close>

theorem self_delete_prevention_witness:
  "delete_admin_user True (utf16 ''96354'') (without ''password'' demo_admin) [demo_admin] =
     (\<lparr>status = 400, payload = ErrorMsg ''Cannot delete your own account''\<rparr>, [demo_admin])
   \<and> has_admin [demo_admin]"
proof -
  have 1: "parseInt10 (utf16 ''96354'') = Some 96354"
    by (simp add: parseInt10_def utf16_def isWhiteSpace_def isDigit_def)
  have 2: "find_by_hash (Some 96354) [demo_admin] = Inr (Some demo_admin)"
    by (simp add: demo_admin_def hashStringToNumber_def utf16_def toInt32_def shl5_def)
  have 3: "is_string (field demo_admin ''email'')"
    by (simp add: demo_admin_def field_def)
  have 4: "reachable [demo_admin]"
    by (rule reachable.first_start [OF demo_startup])
  from self_delete_prevention 1 2 3 4 show ?thesis by blast
qed

lemma hash_abd: "hashStringToNumber (utf16 ''abd'') = 96355"
  by (simp add: hashStringToNumber_def utf16_def toInt32_def shl5_def)

lemma demo_second_admin:
  "post_admin_users True second_services (utf16 ''bea@quillyourdream.com'') (utf16 ''secret'') True
     [demo_admin] =
   (\<lparr>status = 201,
     payload = Doc (Some (set_field ''id'' (JNum 96355) (without ''password'' second_admin)))\<rparr>,
    [demo_admin, second_admin])"
proof -
  have h: "hashStringToNumber [97, 98, 100] = 96355"
    using hash_abd by (simp add: utf16_def)
  show ?thesis
    by (simp add: post_admin_users_def model_create_def create_def checkObject_def valid_key_def
        findOne_def matches_def field_def things_equal_def Let_def json_normalized_def
        normalizeId_def toObject_def without_def set_field_def second_services_def
        demo_services_def second_admin_def demo_admin_def admin_role_def ADMIN_EMAIL_def
        utf16_def h)
qed

text \<open>
  Claim C9 as it was stated, refuted: an admin need not exist at all times. The session
  is looked up before the handler runs, in an \<open>await\<close> of its own, and the handler's
  calls of the store are \<open>await\<close>s too, so two requests can overlap. The default admin
  creates a second admin. Each of the two then asks for the deletion of the other, and
  both requests are authenticated while both records are there. The first handler removes
  the second admin; the second handler, whose \<open>req.user\<close> is that removed record, finds
  the first admin under the given id, sees another e-mail address than its own, and
  removes it. No user is left.
\<close>

theorem admins_delete_each_other:
  "reachable [demo_admin, second_admin]
   \<and> deserializeUser (utf16 ''abc'') [demo_admin, second_admin] = Some (without ''password'' demo_admin)
   \<and> deserializeUser (utf16 ''abd'') [demo_admin, second_admin] = Some (without ''password'' second_admin)
   \<and> isAdmin (Some (without ''password'' demo_admin))
   \<and> isAdmin (Some (without ''password'' second_admin))
   \<and> delete_admin_user True (utf16 ''96355'') (without ''password'' demo_admin)
        [demo_admin, second_admin] =
      (\<lparr>status = 200, payload = Success\<rparr>, [demo_admin])
   \<and> delete_admin_user True (utf16 ''96354'') (without ''password'' second_admin) [demo_admin] =
      (\<lparr>status = 200, payload = Success\<rparr>, [])
   \<and> \<not> has_admin []"
proof (intro conjI)
  have a: "deserializeUser (utf16 ''abc'') [demo_admin] = Some (without ''password'' demo_admin)"
    by (simp add: deserializeUser_def findOne_def matches_def field_def things_equal_def
        demo_admin_def utf16_def)
  have ia: "isAdmin (Some (without ''password'' demo_admin))"
    by (simp add: isAdmin_def field_def without_def demo_admin_def admin_role_def)
  have "reachable [demo_admin]"
    by (rule reachable.first_start [OF demo_startup])
  from reachable.admin_creates_user [OF this, of "utf16 ''abc''" second_services
      "utf16 ''bea@quillyourdream.com''" "utf16 ''secret''" True] a ia
  show "reachable [demo_admin, second_admin]"
    by (simp add: demo_second_admin)
  show "deserializeUser (utf16 ''abc'') [demo_admin, second_admin] = Some (without ''password'' demo_admin)"
    by (simp add: deserializeUser_def findOne_def matches_def field_def things_equal_def
        demo_admin_def utf16_def)
  show "deserializeUser (utf16 ''abd'') [demo_admin, second_admin] = Some (without ''password'' second_admin)"
    by (simp add: deserializeUser_def findOne_def matches_def field_def things_equal_def
        demo_admin_def second_admin_def utf16_def)
  show "isAdmin (Some (without ''password'' demo_admin))"
    by (rule ia)
  show "isAdmin (Some (without ''password'' second_admin))"
    by (simp add: isAdmin_def field_def without_def second_admin_def admin_role_def)
  have p5: "parseInt10 (utf16 ''96355'') = Some 96355"
    by (simp add: parseInt10_def utf16_def isWhiteSpace_def isDigit_def)
  have p4: "parseInt10 (utf16 ''96354'') = Some 96354"
    by (simp add: parseInt10_def utf16_def isWhiteSpace_def isDigit_def)
  have ha: "hashStringToNumber [97, 98, 99] = 96354"
    by (simp add: hashStringToNumber_def toInt32_def shl5_def)
  have hb: "hashStringToNumber [97, 98, 100] = 96355"
    by (simp add: hashStringToNumber_def toInt32_def shl5_def)
  show "delete_admin_user True (utf16 ''96355'') (without ''password'' demo_admin)
        [demo_admin, second_admin] =
      (\<lparr>status = 200, payload = Success\<rparr>, [demo_admin])"
    unfolding delete_admin_user_def p5
    by (simp add: deleteOne_def matches_def field_def things_equal_def without_def
        demo_admin_def second_admin_def ADMIN_EMAIL_def utf16_def ha hb)
  show "delete_admin_user True (utf16 ''96354'') (without ''password'' second_admin) [demo_admin] =
      (\<lparr>status = 200, payload = Success\<rparr>, [])"
    unfolding delete_admin_user_def p4
    by (simp add: deleteOne_def matches_def field_def things_equal_def without_def
        demo_admin_def second_admin_def ADMIN_EMAIL_def utf16_def ha)
  show "\<not> has_admin []"
    by (simp add: has_admin_def)
qed

lemmas store_defs = model_create_def create_def checkObject_def valid_key_def findOne_def
  matches_def field_def things_equal_def Let_def set_field_def number_def

lemma hash_abc: "hashStringToNumber (utf16 ''abc'') = 96354"
  by (simp add: hashStringToNumber_def utf16_def toInt32_def shl5_def)

lemma parse_96354: "parseInt10 (utf16 ''96354'') = Some 96354"
  by (simp add: parseInt10_def utf16_def isWhiteSpace_def isDigit_def)

lemma normalizeId_fresh:
  assumes "native d = Some s" and "s \<noteq> []" and "\<not> truthy (field d ''id'')"
      and "\<not> truthy (field d ''toObject'')"
  shows "normalizeId b (Some d) = Inr (Some (set_field ''id'' (JNum (hashStringToNumber s)) d))"
  using assms by (simp add: normalizeId_def toObject_def)

lemma field_set_field_same: "k \<noteq> ''_id'' \<Longrightarrow> field (set_field k v d) k = Some v"
  by (simp add: field_def set_field_def map_of_set_prop)

lemma native_set_field: "native (set_field k v d) = native d"
  by (simp add: set_field_def)

lemma set_field_idem: "set_field k v (set_field k v d) = set_field k v d"
proof -
  have "set_prop k v (set_prop k v ps) = set_prop k v ps" for ps
    by (induction ps) auto
  then show ?thesis by (simp add: set_field_def)
qed

lemma normalizeId_persisted:
  assumes "native d = Some s" and "s \<noteq> []" and "\<not> truthy (field d ''toObject'')"
  shows "normalizeId b (Some (set_field ''id'' (JNum (hashStringToNumber s)) d))
       = Inr (Some (set_field ''id'' (JNum (hashStringToNumber s)) d))"
proof -
  have t: "\<not> truthy (field (set_field ''id'' (JNum (hashStringToNumber s)) d) ''toObject'')"
    using assms(3) by (simp add: field_set_field_other)
  show ?thesis
  proof (cases "hashStringToNumber s = 0")
    case True
    then show ?thesis
      using assms(1,2) t
      by (simp add: normalizeId_def toObject_def field_set_field_same native_set_field set_field_idem)
  next
    case False
    then show ?thesis
      using assms(1,2) t
      by (simp add: normalizeId_def toObject_def field_set_field_same native_set_field)
  qed
qed

lemma model_create_native:
  "model_create b sv d coll = Inr (stored, coll') \<Longrightarrow> native d = None \<Longrightarrow>
   native stored = Some (newId sv) \<and> props stored = props d"
  by (auto simp add: model_create_def create_def Let_def split: if_splits)

lemma find_append:
  "List.find P (xs @ ys) = (case List.find P xs of Some x \<Rightarrow> Some x | None \<Rightarrow> List.find P ys)"
  by (induction xs) auto

lemma findOne_extended:
  "findOne q coll = Some d \<Longrightarrow> findOne q (coll @ added) = Some d"
  by (simp add: findOne_def find_append)

lemma create_then_findOne:
  assumes "model_create b sv data coll = Inr (stored, coll')" and "native data = None"
  shows "findOne [(''_id'', JStr (newId sv))] coll' = Some stored"
proof -
  from assms have n: "native stored = Some (newId sv)"
    by (simp add: model_create_native)
  from assms(1) have c: "coll' = coll @ [stored]"
    by (simp add: model_create_result)
  from assms have "\<not> list_ex (\<lambda>x. native x = Some (newId sv)) coll"
    by (auto simp add: model_create_def create_def Let_def split: if_splits)
  then have "List.find (matches [(''_id'', JStr (newId sv))]) coll = None"
    by (simp add: find_None_iff matches_id list_ex_iff)
  then show ?thesis
    using n by (simp add: c findOne_def find_append matches_id)
qed

lemma insert_each_extends: "\<exists>added. snd (insert_each xs coll) = coll @ added"
proof (induction xs arbitrary: coll)
  case Nil
  then show ?case by simp
next
  case (Cons x xs)
  obtain fresh d where x: "x = (fresh, d)" by (cases x)
  show ?case
  proof (cases "create fresh d coll")
    case (Inl err)
    with x show ?thesis by simp
  next
    case (Inr r)
    obtain nd coll1 where r: "r = (nd, coll1)" by (cases r)
    from create_result [OF Inr [unfolded r]] have c1: "coll1 = coll @ [nd]" by simp
    from Cons.IH [of coll1] obtain added where "snd (insert_each xs coll1) = coll1 @ added"
      by blast
    with x Inr r c1 show ?thesis by simp
  qed
qed

lemma load_samples_extends: "\<exists>added. snd (load_samples sv sm db) c = db c @ added"
proof -
  have e: "\<exists>added. snd (insert_each xs (db c')) = db c' @ added" for xs c'
    by (rule insert_each_extends)
  have same: "\<exists>added. db c = db c @ added" by simp
  show ?thesis
    using e [of "artworksData sm" Artworks] e [of "[artistData sm]" Artist]
      e [of "faqsData sm" Faqs] e [of "[(settingsKey sm, default_settings sv)]" Settings] same
    unfolding load_samples_def
    by (cases c) (auto split: prod.splits option.splits)
qed

lemma initNeDB_extends: "\<exists>added. snd (initNeDB sv sm db) c = db c @ added"
proof -
  obtain r db1 where l: "(if countDocuments [] (db Artworks) > 0 then (None, db)
      else load_samples sv sm db) = (r, db1)"
    by (cases "if countDocuments [] (db Artworks) > 0 then (None, db) else load_samples sv sm db")
  have 1: "\<exists>added. db1 c = db c @ added" for c
    using l load_samples_extends [of sv sm db c] by (auto split: if_splits)
  show ?thesis
  proof (cases r)
    case (Some err)
    with l 1 [of c] show ?thesis by (simp add: initNeDB_def)
  next
    case None
    show ?thesis
    proof (cases "initNeDB_admin sv (db1 Users)")
      case (Inl err)
      with None l 1 [of c] show ?thesis by (simp add: initNeDB_def)
    next
      case (Inr users')
      from initNeDB_admin_result [OF Inr] obtain a where a: "users' = db1 Users @ a"
        by auto
      from 1 [of Users] obtain b where "db1 Users = db Users @ b" by blast
      with a have "users' = db Users @ (b @ a)" by simp
      with None l Inr 1 [of c] show ?thesis
        by (cases "c = Users") (auto simp add: initNeDB_def)
    qed
  qed
qed

lemma restarted_keeps_record:
  "restarted db db' \<Longrightarrow> findOne q (db c) = Some d \<Longrightarrow> findOne q (db' c) = Some d"
proof (induction rule: restarted.induct)
  case (same db)
  then show ?case by simp
next
  case (again db db1 sv sm)
  from initNeDB_extends [of sv sm db1 c] obtain added where
    "snd (initNeDB sv sm db1) c = db1 c @ added" by blast
  with again show ?case by (simp add: findOne_extended)
qed

text \<open>
  What claim C2 says does hold for a record whose input brings no \<open>_id\<close>, no truthy
  \<open>id\<close> and no truthy \<open>toObject\<close> (the artwork and user routes validate their input to
  that effect), when the store gives it a non-empty key. The record is read back from the
  collection by its native key, right after \<open>create\<close> and after any number of starts of
  the process; \<open>normalizeId\<close>, on either setting of the backend flag, then shows the hash
  of the native key as numeric id and the native key unchanged, and does so again once
  that id has been written into the record (as the embedded backend does for artworks).
\<close>

lemma identity_stable_for_validated_input:
  assumes "model_create usingNeDB sv data (db c) = Inr (stored, coll')"
      and "native data = None" and "\<not> truthy (field data ''id'')"
      and "\<not> truthy (field data ''toObject'')" and "newId sv \<noteq> []"
      and "restarted (db(c := coll')) db'"
  shows "findOne [(''_id'', JStr (newId sv))] coll' = Some stored"
    and "findOne [(''_id'', JStr (newId sv))] (db' c) = Some stored"
    and "\<exists>r. normalizeId b (findOne [(''_id'', JStr (newId sv))] (db' c)) = Inr (Some r)
            \<and> field r ''id'' = Some (JNum (hashStringToNumber (newId sv)))
            \<and> field r ''_id'' = Some (JStr (newId sv))"
    and "\<exists>r. normalizeId b (Some (set_field ''id'' (JNum (hashStringToNumber (newId sv))) stored))
               = Inr (Some r)
            \<and> field r ''id'' = Some (JNum (hashStringToNumber (newId sv)))
            \<and> field r ''_id'' = Some (JStr (newId sv))"
proof -
  from model_create_native [OF assms(1,2)] have
    n: "native stored = Some (newId sv)" and p: "props stored = props data" by simp_all
  have nt: "\<not> truthy (field stored ''id'')" "\<not> truthy (field stored ''toObject'')"
    using assms(3,4) p by (simp_all add: field_def)
  show f: "findOne [(''_id'', JStr (newId sv))] coll' = Some stored"
    by (rule create_then_findOne [OF assms(1,2)])
  then have "findOne [(''_id'', JStr (newId sv))] ((db(c := coll')) c) = Some stored" by simp
  from restarted_keeps_record [OF assms(6) this]
  show f': "findOne [(''_id'', JStr (newId sv))] (db' c) = Some stored" .
  have key: "field (set_field ''id'' v stored) ''_id'' = Some (JStr (newId sv))" for v
    using n by (simp add: field_def set_field_def)
  show "\<exists>r. normalizeId b (findOne [(''_id'', JStr (newId sv))] (db' c)) = Inr (Some r)
            \<and> field r ''id'' = Some (JNum (hashStringToNumber (newId sv)))
            \<and> field r ''_id'' = Some (JStr (newId sv))"
    unfolding f' normalizeId_fresh [OF n assms(5) nt]
    using key by (simp add: field_set_field_same)
  show "\<exists>r. normalizeId b (Some (set_field ''id'' (JNum (hashStringToNumber (newId sv))) stored))
               = Inr (Some r)
            \<and> field r ''id'' = Some (JNum (hashStringToNumber (newId sv)))
            \<and> field r ''_id'' = Some (JStr (newId sv))"
    unfolding normalizeId_persisted [OF n assms(5) nt(2)]
    using key by (simp add: field_set_field_same)
qed

lemma demo_create_faq:
  "model_create True demo_services demo_faq_body [] = Inr (demo_faq, [demo_faq])"
  by (simp add: store_defs demo_services_def demo_faq_body_def demo_faq_def)

lemma own_id_created:
  "model_create True demo_services own_id_faq_body [] = Inr (own_id_faq, [own_id_faq])"
  by (simp add: store_defs demo_services_def own_id_faq_body_def own_id_faq_def)

lemma toObject_created:
  "model_create True demo_services toObject_faq_body [] = Inr (toObject_faq, [toObject_faq])"
  by (simp add: store_defs demo_services_def toObject_faq_body_def toObject_faq_def)

lemma parse_x: "parseInt10 (utf16 ''x'') = None"
  by (simp add: parseInt10_def utf16_def isWhiteSpace_def isDigit_def)

lemma own_id_normalized:
  "normalizeId True (Some own_id_faq) = Inr (Some (set_field ''id'' JNaN own_id_faq))"
proof -
  have "parseInt10 [120] = None"
    using parse_x by (simp add: utf16_def)
  then show ?thesis
    by (simp add: normalizeId_def toObject_def field_def number_def own_id_faq_def
        own_id_faq_body_def utf16_def)
qed

text \<open>
  Claim C2, at the input where the code departs from it. \<open>POST /api/admin/faqs\<close> hands
  the request body to \<open>create\<close> as it came (the shared schema has an insert schema for
  FAQs that omits \<open>id\<close> and \<open>_id\<close>, and the artwork route validates with its own, but
  this route validates nothing). On the embedded backend a body with \<open>id: "x"\<close> is
  accepted and stored under the key \<open>abc\<close>. Read back from the collection by that key,
  before and after a start of the process, the record shows the \<open>id\<close> \<open>NaN\<close>, and so
  does the answer to the request itself: not a number a client can address the record by,
  and not the hash 96354 of its native key.
\<close>

theorem faq_with_own_id_reads_nan:
  "post_admin_faqs True demo_services own_id_faq_body [] =
     (\<lparr>status = 201, payload = Doc (Some (set_field ''id'' JNaN own_id_faq))\<rparr>, [own_id_faq])
   \<and> normalizeId True (findOne [(''_id'', JStr (utf16 ''abc''))] [own_id_faq]) =
       Inr (Some (set_field ''id'' JNaN own_id_faq))
   \<and> normalizeId True
       (findOne [(''_id'', JStr (utf16 ''abc''))]
          (snd (initNeDB demo_services demo_samples (empty_database(Faqs := [own_id_faq]))) Faqs)) =
       Inr (Some (set_field ''id'' JNaN own_id_faq))
   \<and> field (set_field ''id'' JNaN own_id_faq) ''id'' = Some JNaN
   \<and> hashStringToNumber (utf16 ''abc'') = 96354"
proof (intro conjI)
  show "post_admin_faqs True demo_services own_id_faq_body [] =
     (\<lparr>status = 201, payload = Doc (Some (set_field ''id'' JNaN own_id_faq))\<rparr>, [own_id_faq])"
    by (simp add: post_admin_faqs_def json_normalized_def own_id_created own_id_normalized)
  have f: "findOne [(''_id'', JStr (utf16 ''abc''))] [own_id_faq] = Some own_id_faq"
    using create_then_findOne [OF own_id_created] 
    by (simp add: own_id_faq_body_def demo_services_def)
  show "normalizeId True (findOne [(''_id'', JStr (utf16 ''abc''))] [own_id_faq]) =
       Inr (Some (set_field ''id'' JNaN own_id_faq))"
    by (simp add: f own_id_normalized)
  have "restarted (empty_database(Faqs := [own_id_faq]))
      (snd (initNeDB demo_services demo_samples (empty_database(Faqs := [own_id_faq]))))"
    by (rule restarted.again) (rule restarted.same)
  from restarted_keeps_record [OF this, of "[(''_id'', JStr (utf16 ''abc''))]" Faqs own_id_faq] f
  have "findOne [(''_id'', JStr (utf16 ''abc''))]
      (snd (initNeDB demo_services demo_samples (empty_database(Faqs := [own_id_faq]))) Faqs)
      = Some own_id_faq"
    by simp
  then show "normalizeId True
       (findOne [(''_id'', JStr (utf16 ''abc''))]
          (snd (initNeDB demo_services demo_samples (empty_database(Faqs := [own_id_faq]))) Faqs)) =
       Inr (Some (set_field ''id'' JNaN own_id_faq))"
    by (simp add: own_id_normalized)
  show "field (set_field ''id'' JNaN own_id_faq) ''id'' = Some JNaN"
    by (simp add: field_set_field_same)
  show "hashStringToNumber (utf16 ''abc'') = 96354"
    by (rule hash_abc)
qed

text \<open>The two reads alone: neither shows the hash of the native key.\<close>

theorem faq_with_own_id_reads_nan_witness:
  "normalizeId True (findOne [(''_id'', JStr (utf16 ''abc''))] [own_id_faq])
     \<noteq> Inr (Some (set_field ''id'' (JNum 96354) own_id_faq))
   \<and> status (fst (post_admin_faqs True demo_services own_id_faq_body [])) = 201"
proof -
  have "set_field ''id'' JNaN own_id_faq \<noteq> set_field ''id'' (JNum 96354) own_id_faq"
    by (simp add: set_field_def own_id_faq_def own_id_faq_body_def)
  then show ?thesis
    using faq_with_own_id_reads_nan by simp
qed

text \<open>
  The same route accepts a body with a property \<open>toObject\<close>. The record is stored, the
  request is answered 500, and every later read of the record through \<open>normalizeId\<close>
  throws: the record has no numeric id at all.
\<close>

lemma faq_with_toObject_cannot_be_read:
  "post_admin_faqs True demo_services toObject_faq_body [] =
     (\<lparr>status = 500, payload = ErrorMsg ''Failed to create FAQ''\<rparr>, [toObject_faq])
   \<and> normalizeId True (findOne [(''_id'', JStr (utf16 ''abc''))] [toObject_faq]) = Inl TypeError"
proof
  have n: "normalizeId True (Some toObject_faq) = Inl TypeError"
    by (simp add: normalizeId_def toObject_def field_def toObject_faq_def toObject_faq_body_def)
  show "post_admin_faqs True demo_services toObject_faq_body [] =
     (\<lparr>status = 500, payload = ErrorMsg ''Failed to create FAQ''\<rparr>, [toObject_faq])"
    by (simp add: post_admin_faqs_def json_normalized_def toObject_created n)
  have "findOne [(''_id'', JStr (utf16 ''abc''))] [toObject_faq] = Some toObject_faq"
    using create_then_findOne [OF toObject_created]
    by (simp add: toObject_faq_body_def demo_services_def)
  then show "normalizeId True (findOne [(''_id'', JStr (utf16 ''abc''))] [toObject_faq]) = Inl TypeError"
    by (simp add: n)
qed

text \<open>
  The embedded backend answers 404 to every FAQ update while no stored FAQ has an \<open>id\<close>
  property.
\<close>

lemma nedb_faq_patch_not_found:
  assumes "list_all (\<lambda>d. field d ''id'' = None) faqs"
  shows "patch_admin_faqs True idParam body faqs =
           (\<lparr>status = 404, payload = ErrorMsg ''FAQ not found''\<rparr>, faqs)"
proof -
  have "List.find (matches [(''id'', v)]) faqs = None" for v
    using assms by (induction faqs) (auto simp add: matches_def)
  then show ?thesis
    by (simp add: patch_admin_faqs_def findOne_def Let_def)
qed

text \<open>
  Claim C7, at the input where the code departs from it. On the embedded backend a FAQ is
  created through \<open>POST /api/admin/faqs\<close>; the answer carries the numeric id 96354. The
  stored document has no \<open>id\<close> property (only the artwork route writes one), so the
  update \<open>PATCH /api/admin/faqs/96354\<close> finds nothing by \<open>{id: 96354}\<close>: 404, and the
  document keeps its old answer.
\<close>

theorem faq_update_by_numeric_id_fails_on_nedb:
  "post_admin_faqs True demo_services demo_faq_body [] =
     (\<lparr>status = 201, payload = Doc (Some (set_field ''id'' (JNum 96354) demo_faq))\<rparr>, [demo_faq])
   \<and> patch_admin_faqs True (utf16 ''96354'') demo_faq_patch [demo_faq] =
     (\<lparr>status = 404, payload = ErrorMsg ''FAQ not found''\<rparr>, [demo_faq])"
proof
  have "normalizeId True (Some demo_faq) = Inr (Some (set_field ''id'' (JNum 96354) demo_faq))"
    using normalizeId_fresh [of demo_faq "utf16 ''abc''" True] hash_abc
    by (simp add: demo_faq_def demo_faq_body_def field_def utf16_def)
  then show "post_admin_faqs True demo_services demo_faq_body [] =
     (\<lparr>status = 201, payload = Doc (Some (set_field ''id'' (JNum 96354) demo_faq))\<rparr>, [demo_faq])"
    by (simp add: post_admin_faqs_def json_normalized_def demo_create_faq)
  show "patch_admin_faqs True (utf16 ''96354'') demo_faq_patch [demo_faq] =
     (\<lparr>status = 404, payload = ErrorMsg ''FAQ not found''\<rparr>, [demo_faq])"
    by (rule nedb_faq_patch_not_found) (simp add: demo_faq_def demo_faq_body_def field_def)
qed

text \<open>The answers alone, read off the two evaluations above.\<close>

theorem faq_update_by_numeric_id_fails_on_nedb_witness:
  "status (fst (patch_admin_faqs True (utf16 ''96354'') demo_faq_patch [demo_faq])) = 404
   \<and> snd (patch_admin_faqs True (utf16 ''96354'') demo_faq_patch [demo_faq]) = [demo_faq]"
  using faq_update_by_numeric_id_fails_on_nedb by simp

text \<open>
  On the embedded backend every update of an existing singleton document fails and
  changes nothing.
\<close>

lemma nedb_singleton_update_fails:
  assumes "findOne [] coll = Some existing"
  shows "patch_admin_artist True sv body coll =
           (\<lparr>status = 500, payload = ErrorMsg ''Failed to update artist information''\<rparr>, coll)"
    and "put_admin_settings True sv body coll =
           (\<lparr>status = 500, payload = ErrorMsg ''Failed to update settings''\<rparr>, coll)"
  using assms
  by (simp_all add: patch_admin_artist_def put_admin_settings_def assign_and_save_def Let_def)

text \<open>
  Claim C8, at the input where the code departs from it. On the embedded backend the
  first \<open>PATCH /api/admin/artist\<close> creates the one document. The next one finds it, and
  fails at \<open>save()\<close>: 500, and the document is not updated. \<open>PUT /api/admin/settings\<close>
  does the same.
\<close>

theorem singleton_update_fails_on_nedb:
  "patch_admin_artist True demo_services demo_artist_body [] =
     (\<lparr>status = 200, payload = Doc (Some (set_field ''id'' (JNum 96354) demo_artist))\<rparr>, [demo_artist])
   \<and> patch_admin_artist True demo_services demo_artist_patch [demo_artist] =
     (\<lparr>status = 500, payload = ErrorMsg ''Failed to update artist information''\<rparr>, [demo_artist])
   \<and> put_admin_settings True demo_services demo_artist_patch [demo_artist] =
     (\<lparr>status = 500, payload = ErrorMsg ''Failed to update settings''\<rparr>, [demo_artist])"
proof (intro conjI)
  have c: "model_create True demo_services demo_artist_body [] = Inr (demo_artist, [demo_artist])"
    by (simp add: store_defs demo_services_def demo_artist_body_def demo_artist_def)
  have "normalizeId True (Some demo_artist) = Inr (Some (set_field ''id'' (JNum 96354) demo_artist))"
    using normalizeId_fresh [of demo_artist "utf16 ''abc''" True] hash_abc
    by (simp add: demo_artist_def demo_artist_body_def field_def utf16_def)
  then show "patch_admin_artist True demo_services demo_artist_body [] =
     (\<lparr>status = 200, payload = Doc (Some (set_field ''id'' (JNum 96354) demo_artist))\<rparr>, [demo_artist])"
    by (simp add: patch_admin_artist_def json_normalized_def findOne_def c)
  have f: "findOne [] [demo_artist] = Some demo_artist"
    by (simp add: findOne_def matches_def)
  show "patch_admin_artist True demo_services demo_artist_patch [demo_artist] =
     (\<lparr>status = 500, payload = ErrorMsg ''Failed to update artist information''\<rparr>, [demo_artist])"
    by (rule nedb_singleton_update_fails(1) [OF f])
  show "put_admin_settings True demo_services demo_artist_patch [demo_artist] =
     (\<lparr>status = 500, payload = ErrorMsg ''Failed to update settings''\<rparr>, [demo_artist])"
    by (rule nedb_singleton_update_fails(2) [OF f])
qed

theorem singleton_update_fails_on_nedb_witness:
  "status (fst (patch_admin_artist True demo_services demo_artist_patch [demo_artist])) = 500
   \<and> snd (patch_admin_artist True demo_services demo_artist_patch [demo_artist]) = [demo_artist]"
  using singleton_update_fails_on_nedb by simp

lemma modify_first_at_first_match:
  "List.find P us = Some d \<Longrightarrow> f d = Inr d' \<Longrightarrow>
   \<exists>pre post. us = pre @ d # post \<and> (\<forall>x \<in> set pre. \<not> P x)
      \<and> modify_first P f us = Inr (1, pre @ d' # post)"
proof (induction us)
  case Nil
  then show ?case by simp
next
  case (Cons u us)
  show ?case
  proof (cases "P u")
    case True
    with Cons.prems have "u = d" by simp
    with True Cons.prems(2) have "u # us = [] @ d # us \<and> (\<forall>x \<in> set []. \<not> P x)
        \<and> modify_first P f (u # us) = Inr (1, [] @ d' # us)"
      by simp
    then show ?thesis by blast
  next
    case False
    with Cons.prems(1) have "List.find P us = Some d" by simp
    from Cons.IH [OF this Cons.prems(2)] obtain pre post where
      "us = pre @ d # post" "\<forall>x \<in> set pre. \<not> P x" "modify_first P f us = Inr (1, pre @ d' # post)"
      by blast
    with False have "u # us = (u # pre) @ d # post \<and> (\<forall>x \<in> set (u # pre). \<not> P x)
        \<and> modify_first P f (u # us) = Inr (1, (u # pre) @ d' # post)"
      by simp
    then show ?thesis by blast
  qed
qed

lemma find_after_prefix:
  "\<forall>x \<in> set pre. \<not> P x \<Longrightarrow> P d \<Longrightarrow> List.find P (pre @ d # post) = Some d"
  by (induction pre) auto

lemma set_prop_all: "list_all P ps \<Longrightarrow> P (k, v) \<Longrightarrow> list_all P (set_prop k v ps)"
  by (induction ps) auto

lemma checkObject_set_field:
  "checkObject d \<Longrightarrow> valid_key k \<Longrightarrow> checkValue v \<Longrightarrow> checkObject (set_field k v d)"
  by (simp add: checkObject_def set_field_def set_prop_all)

lemma spread_single: "spread d \<lparr>native = None, props = [(k, v)]\<rparr> = set_field k v d"
  by (simp add: spread_def set_field_def)

text \<open>
  What claim C7 says does hold for an artwork on the embedded backend: the record found
  by its numeric id (one without a property \<open>toObject\<close>) gets the one field of the patch
  (any field but \<open>id\<close> and \<open>_id\<close>, with a name the store accepts), every other field
  keeps its value, the same numeric id finds the updated record, and no document is added
  or lost. The answer is the updated record, normalized.
\<close>

lemma artwork_update_round_trip:
  assumes "parseInt10 idParam = Some n"
      and "findOne [(''id'', JNum n)] artworks = Some d"
      and "k \<noteq> ''id''" and "k \<noteq> ''_id''"
      and "valid_key k" and "checkValue v" and "checkObject d"
      and "\<not> truthy (field d ''toObject'')"
  shows "\<exists>artworks'.
           patch_admin_artworks True idParam \<lparr>native = None, props = [(k, v)]\<rparr> artworks =
             (json_normalized True 200 ''Failed to update artwork'' (Some (set_field k v d)), artworks')
         \<and> findOne [(''id'', JNum n)] artworks' = Some (set_field k v d)
         \<and> field (set_field k v d) k = Some v
         \<and> (\<forall>k'. k' \<noteq> k \<longrightarrow> field (set_field k v d) k' = field d k')
         \<and> length artworks' = length artworks"
proof -
  let ?q = "[(''id'', JNum n)]"
  let ?d' = "set_field k v d"
  have chk: "checkObject ?d'"
    using assms(7,5,6) by (rule checkObject_set_field)
  have nat: "native ?d' = native d" "?d'\<lparr>native := native d\<rparr> = ?d'"
    by (simp_all add: set_field_def)
  have rep: "replacement ?d' d = Inr ?d'"
    using chk nat by (simp add: replacement_def)
  from assms(2) have f: "List.find (matches ?q) artworks = Some d" by (simp add: findOne_def)
  from modify_first_at_first_match [where f = "replacement ?d'", OF f rep] obtain pre post where
    pp: "artworks = pre @ d # post" "\<forall>x \<in> set pre. \<not> matches ?q x"
      "modify_first (matches ?q) (replacement ?d') artworks = Inr (1, pre @ ?d' # post)"
    by blast
  from assms(2) have "matches ?q d" by (simp add: findOne_Some)
  then have m: "matches ?q ?d'"
    using assms(3) by (simp add: matches_def field_set_field_other)
  have found: "findOne ?q (pre @ ?d' # post) = Some ?d'"
    unfolding findOne_def by (rule find_after_prefix [OF pp(2) m])
  have "patch_admin_artworks True idParam \<lparr>native = None, props = [(k, v)]\<rparr> artworks =
      (json_normalized True 200 ''Failed to update artwork'' (Some ?d'), pre @ ?d' # post)"
    using assms(1,2,8) pp(3) found
    by (simp add: patch_admin_artworks_def toObject_def number_def spread_single updateOne_def)
  moreover have "field ?d' k = Some v"
    using assms(4) by (rule field_set_field_same)
  moreover have "\<forall>k'. k' \<noteq> k \<longrightarrow> field ?d' k' = field d k'"
    by (simp add: field_set_field_other)
  moreover have "length (pre @ ?d' # post) = length artworks"
    using pp(1) by simp
  ultimately show ?thesis
    using found by blast
qed

text \<open>
  The same at concrete inputs: an artwork on the embedded backend, which has its numeric
  id in the store; and, with the library's calls doing what their documentation says, a
  FAQ and the artist document on the networked backend.
\<close>

lemma artwork_update_by_numeric_id_on_nedb:
  "post_admin_artworks demo_services True (Some demo_artwork_body) [] =
     (\<lparr>status = 201, payload = Doc (Some demo_artwork)\<rparr>, [demo_artwork])
   \<and> patch_admin_artworks True (utf16 ''96354'') demo_artwork_patch [demo_artwork] =
     (\<lparr>status = 200, payload = Doc (Some demo_artwork_patched)\<rparr>, [demo_artwork_patched])"
proof
  have h: "hashStringToNumber [97, 98, 99] = 96354"
    using hash_abc by (simp add: utf16_def)
  show "post_admin_artworks demo_services True (Some demo_artwork_body) [] =
     (\<lparr>status = 201, payload = Doc (Some demo_artwork)\<rparr>, [demo_artwork])"
    by (simp add: post_admin_artworks_def store_defs updateOne_def replacement_def
        normalizeId_def json_normalized_def toObject_def demo_services_def demo_artwork_body_def
        demo_artwork_def utf16_def h)
  have p: "parseInt10 [57, 54, 51, 53, 52] = Some 96354"
    using parse_96354 by (simp add: utf16_def)
  show "patch_admin_artworks True (utf16 ''96354'') demo_artwork_patch [demo_artwork] =
     (\<lparr>status = 200, payload = Doc (Some demo_artwork_patched)\<rparr>, [demo_artwork_patched])"
    by (simp add: patch_admin_artworks_def store_defs updateOne_def replacement_def spread_def
        normalizeId_def json_normalized_def toObject_def demo_artwork_patch_def demo_artwork_def
        demo_artwork_patched_def utf16_def p)
qed

lemma faq_update_by_numeric_id_on_mongo:
  "patch_admin_faqs False (utf16 ''96354'') demo_faq_patch [demo_faq] =
     (\<lparr>status = 200,
       payload = Doc (Some \<lparr>native = Some (utf16 ''abc''),
                            props = [(''question'', JStr (utf16 ''Do you ship?'')),
                                     (''answer'', JStr (utf16 ''No'')),
                                     (''category'', JStr (utf16 ''Shipping'')),
                                     (''id'', JNum 96354)]\<rparr>)\<rparr>,
      [\<lparr>native = Some (utf16 ''abc''),
        props = [(''question'', JStr (utf16 ''Do you ship?'')),
                 (''answer'', JStr (utf16 ''No'')),
                 (''category'', JStr (utf16 ''Shipping''))]\<rparr>])"
proof -
  have h: "hashStringToNumber [97, 98, 99] = 96354"
    using hash_abc by (simp add: utf16_def)
  have p: "parseInt10 [57, 54, 51, 53, 52] = Some 96354"
    using parse_96354 by (simp add: utf16_def)
  show ?thesis
    by (simp add: patch_admin_faqs_def store_defs findByIdAndUpdate_def updateOne_def
        replacement_def spread_def normalizeId_def json_normalized_def toObject_def
        demo_faq_patch_def demo_faq_def demo_faq_body_def utf16_def p h)
qed

lemma singleton_update_on_mongo:
  "patch_admin_artist False demo_services demo_artist_patch [demo_artist] =
     (\<lparr>status = 200,
       payload = Doc (Some \<lparr>native = Some (utf16 ''abc''),
                            props = [(''name'', JStr (utf16 ''Bea'')), (''id'', JNum 96354)]\<rparr>)\<rparr>,
      [\<lparr>native = Some (utf16 ''abc''), props = [(''name'', JStr (utf16 ''Bea''))]\<rparr>])"
proof -
  have h: "hashStringToNumber [97, 98, 99] = 96354"
    using hash_abc by (simp add: utf16_def)
  show ?thesis
    by (simp add: patch_admin_artist_def assign_and_save_def save_def store_defs updateOne_def
        replacement_def spread_def normalizeId_def json_normalized_def toObject_def
        demo_artist_patch_def demo_artist_def demo_artist_body_def utf16_def h)
qed

text \<open>
  What does hold of the singleton collections on both backends: they never grow beyond
  one document.
\<close>

lemma modify_first_length:
  "modify_first P f us = Inr (n, us') \<Longrightarrow> length us' = length us"
  using modify_first_map [of P f us n us' "\<lambda>d. ()"] by (metis length_map)

lemma singleton_count:
  assumes "length coll \<le> 1"
  shows "length (snd (patch_admin_artist b sv body coll)) \<le> 1"
    and "length (snd (put_admin_settings b sv body coll)) \<le> 1"
proof -
  have c: "length coll' \<le> 1"
    if "(case findOne [] coll of
              None \<Rightarrow> model_create b sv body coll
            | Some existing \<Rightarrow> assign_and_save b existing body coll) = Inr (d, coll')"
    for d coll'
  proof (cases "findOne [] coll")
    case None
    then have "coll = []"
      by (cases coll) (simp_all add: findOne_def matches_def)
    with that None show ?thesis
      by (auto dest: model_create_result)
  next
    case (Some existing)
    with that assms show ?thesis
      by (auto simp add: assign_and_save_def save_def updateOne_def Let_def
          dest: modify_first_length split: if_splits sum.splits option.splits)
  qed
  show "length (snd (patch_admin_artist b sv body coll)) \<le> 1"
    using assms c by (auto simp add: patch_admin_artist_def split: sum.splits)
  show "length (snd (put_admin_settings b sv body coll)) \<le> 1"
    using assms c by (auto simp add: put_admin_settings_def split: sum.splits)
qed

end
